theory Spec2Isabelle
  imports Complex_Main
begin

section \<open>JavaScript values used by the dashboard modules\<close>

text \<open>
  The numbers that the filters and the time scale compare (a year of the state, the year
  of a date, a span in years): a finite value, \<open>NaN\<close> or one of the two infinities. The
  finite values are reals; what the code branches on (zero, \<open>NaN\<close>, comparisons with 1
  and 5) is kept.
\<close>

datatype jsnum = Num real | NaN | PosInf | NegInf

text \<open>
  A number of a series (a value read from a series file, and what the performance
  computation makes of it) is an IEEE double: a finite value, with the zero of positive
  sign as \<open>Finite 0\<close>, the zero of negative sign, \<open>NaN\<close>, or one of the two infinities.
\<close>

datatype double = Finite real | NegZero | NotANumber | PosInfinity | NegInfinity

text \<open>
  The time value of a \<open>Date\<close> object: an integral number of milliseconds since the epoch
  with absolute value at most 8.64e15, or \<open>NaN\<close> (an Invalid Date), here \<open>None\<close>.
\<close>

type_synonym jstime = "int option"

datatype error = TypeError | SyntaxError | HttpError string | NetworkError

text \<open>
  What \<open>JSON.parse\<close> gives for a line of a series file, as far as the loaders read it:
  \<open>null\<close>, on which a property access throws, or a value with its \<open>date\<close> property (a
  string, or \<open>undefined\<close>, here \<open>None\<close>) and its numeric \<open>value\<close> property.
\<close>

datatype json = JNull | JObject "string option" double

text \<open>
  The built-ins of the platform the modules call. \<open>Date_parse\<close> is the parser behind
  \<open>new Date(string)\<close> (\<open>None\<close> when the string is not a date), \<open>utcFullYear\<close> the calendar
  year of a time value (\<open>getUTCFullYear\<close> on a valid date), \<open>JSON_parse\<close> is \<open>JSON.parse\<close> on
  a line (\<open>None\<close> when it throws its \<open>SyntaxError\<close>).
\<close>

record platform =
  Date_parse :: "string \<Rightarrow> int option"
  utcFullYear :: "int \<Rightarrow> int"
  JSON_parse :: "string \<Rightarrow> json option"

definition TimeClip :: "int \<Rightarrow> jstime" where
  "TimeClip t = (if \<bar>t\<bar> \<le> 8640000000000000 then Some t else None)"

text \<open>\<open>new Date(s)\<close> for a string \<open>s\<close>, and \<open>new Date(v)\<close> for a number \<open>v\<close>.\<close>

definition newDate_string :: "platform \<Rightarrow> string \<Rightarrow> jstime" where
  "newDate_string P s = (case Date_parse P s of None \<Rightarrow> None | Some t \<Rightarrow> TimeClip t)"

definition newDate_number :: "int option \<Rightarrow> jstime" where
  "newDate_number v = (case v of None \<Rightarrow> None | Some t \<Rightarrow> TimeClip t)"

text \<open>Relational operators on dates compare the time values; with \<open>NaN\<close> they are false.\<close>

definition date_ge :: "jstime \<Rightarrow> jstime \<Rightarrow> bool" where
  "date_ge a b = (case a of None \<Rightarrow> False | Some u \<Rightarrow> (case b of None \<Rightarrow> False | Some v \<Rightarrow> v \<le> u))"

definition date_le :: "jstime \<Rightarrow> jstime \<Rightarrow> bool" where
  "date_le a b = (case a of None \<Rightarrow> False | Some u \<Rightarrow> (case b of None \<Rightarrow> False | Some v \<Rightarrow> u \<le> v))"

definition date_gt :: "jstime \<Rightarrow> jstime \<Rightarrow> bool" where
  "date_gt a b = (case a of None \<Rightarrow> False | Some u \<Rightarrow> (case b of None \<Rightarrow> False | Some v \<Rightarrow> v < u))"

text \<open>\<open>d.getUTCFullYear()\<close>: \<open>NaN\<close> on an Invalid Date.\<close>

definition getUTCFullYear :: "platform \<Rightarrow> jstime \<Rightarrow> jsnum" where
  "getUTCFullYear P d = (case d of None \<Rightarrow> NaN | Some t \<Rightarrow> Num (of_int (utcFullYear P t)))"

text \<open>Strict equality \<open>===\<close> of two numbers: \<open>NaN\<close> equals nothing.\<close>

definition strict_eq_num :: "jsnum \<Rightarrow> jsnum \<Rightarrow> bool" where
  "strict_eq_num a b = (a \<noteq> NaN \<and> b \<noteq> NaN \<and> a = b)"

text \<open>
  Truthiness. A state field holding \<open>null\<close> or a number is truthy for a number other than
  0 and \<open>NaN\<close>; a field holding \<open>null\<close> or a string is truthy for a non-empty string.
\<close>

definition truthy_num :: "jsnum option \<Rightarrow> bool" where
  "truthy_num v = (case v of None \<Rightarrow> False | Some n \<Rightarrow> n \<noteq> NaN \<and> n \<noteq> Num 0)"

definition truthy_str :: "string option \<Rightarrow> bool" where
  "truthy_str v = (case v of None \<Rightarrow> False | Some s \<Rightarrow> s \<noteq> [])"


section \<open>The range catalog\<close>

text \<open>\<open>HALVING_RANGES\<close>, the same table in the three modules; \<open>None\<close> is the open end.\<close>

definition HALVING_RANGES :: "(string \<times> string \<times> string option) list" where
  "HALVING_RANGES =
    [(''2009_2012'', ''2009-01-03'', Some ''2012-11-28''),
     (''2012_2016'', ''2012-11-28'', Some ''2016-07-09''),
     (''2016_2020'', ''2016-07-09'', Some ''2020-05-11''),
     (''2020_2024'', ''2020-05-11'', Some ''2024-04-20''),
     (''2024_now'', ''2024-04-20'', None)]"


section \<open>REVIEW_BTC_VS_FIAT: state and filter\<close>

text \<open>A loaded point of the fiat module: \<open>{date: Date, value: number}\<close>.\<close>

record fiat_point =
  date :: jstime
  "value" :: double

text \<open>\<open>reviewChartState\<close>; \<open>None\<close> is \<open>null\<close>.\<close>

record reviewChartState =
  assetClass :: string
  fiat :: string
  timeMode :: string
  year :: "jsnum option"
  halvingCycle :: "string option"
  logScale :: bool

text \<open>
  \<open>filterData(raw)\<close> of the fiat module: the year block, then the halving block.
  \<open>const [s, e] = HALVING_RANGES[id]\<close> throws a \<open>TypeError\<close> when the lookup gives
  \<open>undefined\<close>, which is not iterable. The function reads the state through the fields
  \<open>timeMode\<close>, \<open>year\<close> and \<open>halvingCycle\<close> only, so it is defined on every extension of the
  state record as well.
\<close>

definition filterData_fiat ::
  "platform \<Rightarrow> 'a reviewChartState_scheme \<Rightarrow> fiat_point list \<Rightarrow> error + fiat_point list" where
  "filterData_fiat P st raw =
     (let out = raw;
          out = (if timeMode st = ''year'' \<and> truthy_num (year st)
                 then (case year st of
                         None \<Rightarrow> out
                       | Some yr \<Rightarrow> filter (\<lambda>p. strict_eq_num (getUTCFullYear P (date p)) yr) out)
                 else out)
      in if timeMode st = ''halving'' \<and> truthy_str (halvingCycle st)
         then (case halvingCycle st of
                 None \<Rightarrow> Inr out
               | Some cyc \<Rightarrow>
                   (case map_of HALVING_RANGES cyc of
                      None \<Rightarrow> Inl TypeError
                    | Some (s, e) \<Rightarrow>
                        (let start = newDate_string P s;
                             end = (if truthy_str e then map_option (newDate_string P) e
                                    else None)
                         in Inr (filter (\<lambda>p. date_ge (date p) start \<and>
                               (case end of None \<Rightarrow> True | Some en \<Rightarrow> date_le (date p) en)) out))))
         else Inr out)"


section \<open>REVIEW_BTC_VS_GOLD and REVIEW_BTC_VS_SILVER: state and filter\<close>

text \<open>A loaded point of the gold and silver modules: \<open>{x: Date, y: number}\<close>.\<close>

record point =
  x :: jstime
  y :: double

text \<open>
  \<open>reviewGoldState\<close> (and, field for field, \<open>reviewSilverState\<close>). \<open>None\<close> is \<open>null\<close>.
  \<open>timeMode\<close> is the value of a select control, a string.
\<close>

record reviewGoldState =
  timeMode :: string
  year :: "jsnum option"
  halvingCycle :: "string option"
  logScale :: bool
  customStart :: "string option"
  customEnd :: "string option"

type_synonym reviewSilverState = reviewGoldState

text \<open>
  \<open>clampDateOrder(start, end)\<close> as the filter calls it, on two \<open>Date\<close> objects. An
  object is truthy, an Invalid Date too.
\<close>

definition truthy_date :: "jstime \<Rightarrow> bool" where
  "truthy_date d = True"

definition clampDateOrder :: "jstime \<Rightarrow> jstime \<Rightarrow> jstime \<times> jstime" where
  "clampDateOrder start end =
     (if \<not> truthy_date start \<or> \<not> truthy_date end then (start, end)
      else if date_gt start end then (end, start)
      else (start, end))"

text \<open>
  The three \<open>if\<close> blocks of \<open>filterData\<close>, in the order of the source. The halving block
  throws on an id that the catalog does not hold, as in the fiat module.
\<close>

definition filterYear :: "platform \<Rightarrow> reviewGoldState \<Rightarrow> point list \<Rightarrow> point list" where
  "filterYear P st out =
     (if timeMode st = ''year'' \<and> truthy_num (year st)
      then (case year st of
              None \<Rightarrow> out
            | Some yr \<Rightarrow> filter (\<lambda>p. strict_eq_num (getUTCFullYear P (x p)) yr) out)
      else out)"

definition filterHalving :: "platform \<Rightarrow> reviewGoldState \<Rightarrow> point list \<Rightarrow> error + point list" where
  "filterHalving P st out =
     (if timeMode st = ''halving'' \<and> truthy_str (halvingCycle st)
      then (case halvingCycle st of
              None \<Rightarrow> Inr out
            | Some cyc \<Rightarrow>
                (case map_of HALVING_RANGES cyc of
                   None \<Rightarrow> Inl TypeError
                 | Some (s, e) \<Rightarrow>
                     (let start = newDate_string P s;
                          end = (if truthy_str e then map_option (newDate_string P) e
                                 else None)
                      in Inr (filter (\<lambda>p. date_ge (x p) start \<and>
                                 (case end of None \<Rightarrow> True | Some en \<Rightarrow> date_le (x p) en)) out))))
      else Inr out)"

definition filterCustom :: "platform \<Rightarrow> reviewGoldState \<Rightarrow> point list \<Rightarrow> point list" where
  "filterCustom P st out =
     (if timeMode st = ''custom'' \<and> truthy_str (customStart st) \<and> truthy_str (customEnd st)
      then (case (customStart st, customEnd st) of
              (Some cs, Some ce) \<Rightarrow>
                (let (start, end) = clampDateOrder (newDate_string P cs) (newDate_string P ce);
                     end = newDate_number (map_option (\<lambda>t. t + 86400000 - 1) end)
                 in filter (\<lambda>p. date_ge (x p) start \<and> date_le (x p) end) out)
            | _ \<Rightarrow> out)
      else out)"

text \<open>
  \<open>filterData()\<close> of the gold module, on the loaded series \<open>goldData\<close> (its callers run it
  only once the cache holds an array), and of the silver module, whose text differs in the
  names \<open>silverData\<close> and \<open>reviewSilverState\<close> only.
\<close>

definition filterData_gold ::
  "platform \<Rightarrow> reviewGoldState \<Rightarrow> point list \<Rightarrow> error + point list" where
  "filterData_gold P st goldData =
     (case filterHalving P st (filterYear P st goldData) of
        Inl e \<Rightarrow> Inl e
      | Inr out \<Rightarrow> Inr (filterCustom P st out))"

definition filterData_silver ::
  "platform \<Rightarrow> reviewSilverState \<Rightarrow> point list \<Rightarrow> error + point list" where
  "filterData_silver P st silverData =
     (case filterHalving P st (filterYear P st silverData) of
        Inl e \<Rightarrow> Inl e
      | Inr out \<Rightarrow> Inr (filterCustom P st out))"


section \<open>Performance overlay\<close>

subsection \<open>Arithmetic of doubles\<close>

text \<open>
  Rounding of a real to the nearest double, ties to the even significand (binary64: 53
  bits of significand, exponents from -1022 to 1023). \<open>binade a\<close> is the exponent of
  the power of two at or below \<open>a > 0\<close>, not below -1022, where the subnormal numbers
  start, and 1024 from \<open>2 ^ 1024\<close> on; the doubles of that binade are the multiples of
  \<open>2 ^ (binade a - 52)\<close>, and \<open>a\<close> rounds to the \<open>n\<close>-th of them, where \<open>n\<close> is at most
  \<open>2 ^ 53\<close>. A magnitude of \<open>2 ^ 1024\<close> or more, or one that rounds to \<open>2 ^ 1024\<close> (the
  multiple \<open>2 ^ 53\<close> in the last binade), overflows to an infinity; one that rounds to the
  multiple 0 gives a zero of its sign.
\<close>

fun binade_up :: "nat \<Rightarrow> real \<Rightarrow> int \<Rightarrow> int" where
  "binade_up 0 a e = e"
| "binade_up (Suc n) a e = (if a < 2 then e else binade_up n (a / 2) (e + 1))"

fun binade_down :: "nat \<Rightarrow> real \<Rightarrow> int \<Rightarrow> int" where
  "binade_down 0 a e = e"
| "binade_down (Suc n) a e = (if 1 \<le> a then e else binade_down n (a * 2) (e - 1))"

definition binade :: "real \<Rightarrow> int" where
  "binade a = (if 1 \<le> a then binade_up 1024 a 0 else binade_down 1022 a 0)"

definition pow2 :: "int \<Rightarrow> real" where
  "pow2 e = (if 0 \<le> e then 2 ^ nat e else 1 / 2 ^ nat (- e))"

definition round_half_even :: "real \<Rightarrow> int" where
  "round_half_even r =
     (let f = \<lfloor>r\<rfloor>;
          d = r - of_int f
      in if d < 1 / 2 then f
         else if 1 / 2 < d then f + 1
         else if even f then f
         else f + 1)"

text \<open>A zero and an infinity of a given sign bit.\<close>

definition signed_zero :: "bool \<Rightarrow> double" where
  "signed_zero neg = (if neg then NegZero else Finite 0)"

definition signed_inf :: "bool \<Rightarrow> double" where
  "signed_inf neg = (if neg then NegInfinity else PosInfinity)"

definition round64 :: "real \<Rightarrow> double" where
  "round64 r =
     (if r = 0 then Finite 0
      else (let a = \<bar>r\<bar>;
                e = binade a
            in if 1024 \<le> e then signed_inf (r < 0)
               else (let u = pow2 (e - 52);
                         n = round_half_even (a / u)
                     in if n = 0 then signed_zero (r < 0)
                        else if e = 1023 \<and> 2 ^ 53 \<le> n then signed_inf (r < 0)
                        else Finite (if 0 < r then of_int n * u else - (of_int n * u)))))"










subsection \<open>The computation and the overlay\<close>





section \<open>Adaptive time scale\<close>

text \<open>
  The tick callbacks of \<open>getTimeScaleConfig\<close>, by the label they print: \<open>Q<n> <year>\<close>,
  the short month, the short month with a two-digit year, \<open>Q<n> '<yy>\<close>, the year.
\<close>

datatype tickLabel = QuarterYear | MonthShort | MonthShortYear2 | QuarterYear2 | FullYear

record timeScaleConfig =
  unit :: string
  callback :: "tickLabel option"

text \<open>\<open>diffYears(start, end)\<close> on two dates: the difference of the time values, in years of 365 days.\<close>

definition diffYears :: "jstime \<Rightarrow> jstime \<Rightarrow> jsnum" where
  "diffYears start end =
     (case start of
        None \<Rightarrow> NaN
      | Some s \<Rightarrow> (case end of None \<Rightarrow> NaN | Some e \<Rightarrow> Num (of_int (e - s) / (1000*60*60*24*365))))"

definition js_less :: "jsnum \<Rightarrow> real \<Rightarrow> bool" where
  "js_less a k = (case a of Num r \<Rightarrow> r < k | NaN \<Rightarrow> False | PosInf \<Rightarrow> False | NegInf \<Rightarrow> True)"

definition getTimeScaleConfig :: "reviewGoldState \<Rightarrow> point list \<Rightarrow> timeScaleConfig" where
  "getTimeScaleConfig st data =
     (case data of
        [] \<Rightarrow> \<lparr>unit = ''month'', callback = None\<rparr>
      | p # ps \<Rightarrow>
          (let start = x p;
               end = x (last (p # ps));
               years = diffYears start end
           in if timeMode st = ''all'' then \<lparr>unit = ''quarter'', callback = Some QuarterYear\<rparr>
              else if timeMode st = ''year'' then \<lparr>unit = ''month'', callback = Some MonthShort\<rparr>
              else if timeMode st = ''halving'' then \<lparr>unit = ''month'', callback = Some MonthShortYear2\<rparr>
              else if timeMode st = ''custom'' then
                (if js_less years 1 then \<lparr>unit = ''month'', callback = Some MonthShort\<rparr>
                 else if js_less years 5 then \<lparr>unit = ''quarter'', callback = Some QuarterYear2\<rparr>
                 else \<lparr>unit = ''year'', callback = Some FullYear\<rparr>)
              else \<lparr>unit = ''month'', callback = None\<rparr>))"

text \<open>
  The chart instance, as far as \<open>updateChart\<close> configures it: the data of its dataset,
  the unit and the tick callback of its time axis, and the type of its value axis.
\<close>

record chart =
  dataset :: "point list"
  xUnit :: string
  xCallback :: "tickLabel option"
  yType :: string

text \<open>
  \<open>updateChart()\<close>: the new value of the module variable \<open>chart\<close>. Nothing changes when
  the canvas is missing, the cache is empty or the filtered series is empty. The first
  rendering creates the chart from the filtered series and the time scale advised for it;
  a later one replaces the dataset and the type of the value axis of the instance.
\<close>

definition updateChart ::
  "platform \<Rightarrow> reviewGoldState \<Rightarrow> bool \<Rightarrow> point list option \<Rightarrow> chart option
     \<Rightarrow> error + chart option" where
  "updateChart P st canvas goldData ch =
     (if \<not> canvas then Inr ch
      else (case goldData of
              None \<Rightarrow> Inr ch
            | Some series \<Rightarrow>
                (case filterData_gold P st series of
                   Inl err \<Rightarrow> Inl err
                 | Inr data \<Rightarrow>
                     (if data = [] then Inr ch
                      else (let timeCfg = getTimeScaleConfig st data
                            in case ch of
                                 None \<Rightarrow>
                                   Inr (Some \<lparr>dataset = data,
                                              xUnit = unit timeCfg,
                                              xCallback = callback timeCfg,
                                              yType = (if logScale st then ''logarithmic''
                                                       else ''linear'')\<rparr>)
                               | Some c \<Rightarrow>
                                   Inr (Some (c\<lparr>dataset := data,
                                               yType := (if logScale st then ''logarithmic''
                                                         else ''linear'')\<rparr>)))))))"


section \<open>Series loading\<close>

text \<open>
  The network is outside the program: \<open>net k path\<close> is the outcome of the fetch of \<open>path\<close>
  issued when \<open>k\<close> fetches were issued before it, so that a path may fail once and
  succeed later. \<open>Rejected\<close>: the promise of \<open>fetch\<close> or of \<open>res.text()\<close> rejects.
  \<open>Response ok body\<close>: a response with its \<open>ok\<close> flag and its text. The log lists the
  paths fetched so far. Each call of a loader is run to its end before the next one starts.
\<close>

datatype response = Rejected | Response bool string

type_synonym network = "nat \<Rightarrow> string \<Rightarrow> response"

text \<open>
  \<open>String.prototype.trim\<close> and \<open>split('\n')\<close>. A character of a text is a code unit
  below 256; the white space and the line terminators among these are the tab, the line
  feed, the vertical tab, the form feed, the carriage return, the space and the no-break
  space.
\<close>

definition is_space :: "char \<Rightarrow> bool" where
  "is_space c =
     (c \<in> set [CHR 0x09, CHR 0x0A, CHR 0x0B, CHR 0x0C, CHR 0x0D, CHR 0x20, CHR 0xA0])"

definition trim :: "string \<Rightarrow> string" where
  "trim s = rev (dropWhile is_space (rev (dropWhile is_space s)))"

fun split_nl :: "string \<Rightarrow> string list" where
  "split_nl [] = [[]]"
| "split_nl (c # cs) =
     (if c = CHR 0x0A then [] # split_nl cs
      else (case split_nl cs of [] \<Rightarrow> [[c]] | l # ls \<Rightarrow> (c # l) # ls))"

text \<open>\<open>lines.map(l => JSON.parse(l))\<close>: the first line that throws ends the map.\<close>

fun parse_lines :: "platform \<Rightarrow> string list \<Rightarrow> error + json list" where
  "parse_lines P [] = Inr []"
| "parse_lines P (l # ls) =
     (case JSON_parse P l of
        None \<Rightarrow> Inl SyntaxError
      | Some j \<Rightarrow> (case parse_lines P ls of Inl e \<Rightarrow> Inl e | Inr js \<Rightarrow> Inr (j # js)))"

text \<open>\<open>new Date(p.date)\<close>, where \<open>p.date\<close> is \<open>undefined\<close> (\<open>None\<close>) or a string.\<close>

definition newDate_field :: "platform \<Rightarrow> string option \<Rightarrow> jstime" where
  "newDate_field P d = (case d of None \<Rightarrow> None | Some s \<Rightarrow> newDate_string P s)"

text \<open>
  The second map, \<open>p => ({..: new Date(p.date), ..: p.value})\<close>, which runs once every
  line is parsed; \<open>mk\<close> builds a point of the module (\<open>{date, value}\<close> or \<open>{x, y}\<close>).
\<close>

fun to_points :: "(jstime \<Rightarrow> double \<Rightarrow> 'p) \<Rightarrow> platform \<Rightarrow> json list \<Rightarrow> error + 'p list" where
  "to_points mk P [] = Inr []"
| "to_points mk P (j # js) =
     (case j of
        JNull \<Rightarrow> Inl TypeError
      | JObject d v \<Rightarrow>
          (case to_points mk P js of
             Inl e \<Rightarrow> Inl e
           | Inr ps \<Rightarrow> Inr (mk (newDate_field P d) v # ps)))"

text \<open>The text of a response, read as a series.\<close>

definition readPoints :: "(jstime \<Rightarrow> double \<Rightarrow> 'p) \<Rightarrow> platform \<Rightarrow> string \<Rightarrow> error + 'p list" where
  "readPoints mk P body =
     (case parse_lines P (split_nl (trim body)) of
        Inl e \<Rightarrow> Inl e
      | Inr js \<Rightarrow> to_points mk P js)"

text \<open>
  \<open>loadJSONL(path)\<close>: the result and the fetch log. \<open>msg\<close> builds the message of the error
  thrown on a response that is not ok.
\<close>

definition loadJSONL ::
  "(jstime \<Rightarrow> double \<Rightarrow> 'p) \<Rightarrow> (string \<Rightarrow> string) \<Rightarrow> network \<Rightarrow> platform \<Rightarrow> string list \<Rightarrow> string
     \<Rightarrow> (error + 'p list) \<times> string list" where
  "loadJSONL mk msg net P fetched path =
     (case net (length fetched) path of
        Rejected \<Rightarrow> (Inl NetworkError, fetched @ [path])
      | Response ok body \<Rightarrow>
          (if \<not> ok then (Inl (HttpError (msg path)), fetched @ [path])
           else (readPoints mk P body, fetched @ [path])))"

subsection \<open>The fiat module\<close>

definition loadJSONL_fiat ::
  "network \<Rightarrow> platform \<Rightarrow> string list \<Rightarrow> string \<Rightarrow> (error + fiat_point list) \<times> string list" where
  "loadJSONL_fiat = loadJSONL (\<lambda>d v. \<lparr>date = d, value = v\<rparr>) (\<lambda>path. ''Failed to load '' @ path)"

record dataCache =
  usd :: "fiat_point list option"
  eur :: "fiat_point list option"
  jpy :: "fiat_point list option"

definition usd_path :: string where
  "usd_path = ''/data/review/bitcoin_value/btc_vs_fiat/usd/btc_vs_usd_all.jsonl''"

definition eur_path :: string where
  "eur_path = ''/data/review/bitcoin_value/btc_vs_fiat/eur/btc_vs_eur_all.jsonl''"

definition jpy_path :: string where
  "jpy_path = ''/data/review/bitcoin_value/btc_vs_fiat/jpy/btc_vs_jpy_all.jsonl''"

text \<open>
  One statement \<open>if (!dataCache.k) dataCache.k = await loadJSONL(path)\<close>; an array is
  truthy, also an empty one.
\<close>

definition ensure_usd ::
  "network \<Rightarrow> platform \<Rightarrow> dataCache \<Rightarrow> string list \<Rightarrow> (error + unit) \<times> dataCache \<times> string list" where
  "ensure_usd net P c fetched =
     (case usd c of
        Some _ \<Rightarrow> (Inr (), c, fetched)
      | None \<Rightarrow>
          (case loadJSONL_fiat net P fetched usd_path of
             (Inl e, fetched') \<Rightarrow> (Inl e, c, fetched')
           | (Inr series, fetched') \<Rightarrow> (Inr (), c\<lparr>usd := Some series\<rparr>, fetched')))"

definition ensure_eur ::
  "network \<Rightarrow> platform \<Rightarrow> dataCache \<Rightarrow> string list \<Rightarrow> (error + unit) \<times> dataCache \<times> string list" where
  "ensure_eur net P c fetched =
     (case eur c of
        Some _ \<Rightarrow> (Inr (), c, fetched)
      | None \<Rightarrow>
          (case loadJSONL_fiat net P fetched eur_path of
             (Inl e, fetched') \<Rightarrow> (Inl e, c, fetched')
           | (Inr series, fetched') \<Rightarrow> (Inr (), c\<lparr>eur := Some series\<rparr>, fetched')))"

definition ensure_jpy ::
  "network \<Rightarrow> platform \<Rightarrow> dataCache \<Rightarrow> string list \<Rightarrow> (error + unit) \<times> dataCache \<times> string list" where
  "ensure_jpy net P c fetched =
     (case jpy c of
        Some _ \<Rightarrow> (Inr (), c, fetched)
      | None \<Rightarrow>
          (case loadJSONL_fiat net P fetched jpy_path of
             (Inl e, fetched') \<Rightarrow> (Inl e, c, fetched')
           | (Inr series, fetched') \<Rightarrow> (Inr (), c\<lparr>jpy := Some series\<rparr>, fetched')))"

definition ensureDataLoaded ::
  "network \<Rightarrow> platform \<Rightarrow> dataCache \<Rightarrow> string list \<Rightarrow> (error + unit) \<times> dataCache \<times> string list" where
  "ensureDataLoaded net P c fetched =
     (case ensure_usd net P c fetched of
        (Inl e, c1, fetched1) \<Rightarrow> (Inl e, c1, fetched1)
      | (Inr _, c1, fetched1) \<Rightarrow>
          (case ensure_eur net P c1 fetched1 of
             (Inl e, c2, fetched2) \<Rightarrow> (Inl e, c2, fetched2)
           | (Inr _, c2, fetched2) \<Rightarrow> ensure_jpy net P c2 fetched2))"

subsection \<open>The gold module\<close>

definition loadJSONL_gold ::
  "network \<Rightarrow> platform \<Rightarrow> string list \<Rightarrow> string \<Rightarrow> (error + point list) \<times> string list" where
  "loadJSONL_gold = loadJSONL (\<lambda>d v. \<lparr>x = d, y = v\<rparr>) (\<lambda>path. path)"

definition gold_path :: string where
  "gold_path = ''/data/review/btc_vs_gold/btc_vs_gold_all.jsonl''"

text \<open>The module variables \<open>goldData\<close> and \<open>initialized\<close>.\<close>

record goldModule =
  goldData :: "point list option"
  initialized :: bool

definition ensureLoaded ::
  "network \<Rightarrow> platform \<Rightarrow> goldModule \<Rightarrow> string list \<Rightarrow> (error + unit) \<times> goldModule \<times> string list" where
  "ensureLoaded net P m fetched =
     (case goldData m of
        Some _ \<Rightarrow> (Inr (), m, fetched)
      | None \<Rightarrow>
          (case loadJSONL_gold net P fetched gold_path of
             (Inl e, fetched') \<Rightarrow> (Inl e, m, fetched')
           | (Inr series, fetched') \<Rightarrow> (Inr (), m\<lparr>goldData := Some series\<rparr>, fetched')))"

text \<open>
  The loading part of \<open>loadReviewBtcVsGold\<close>, the call the page makes to show the view;
  the \<open>updateChart()\<close> that follows is \<open>updateChart\<close> above and does not touch the cache.
\<close>

definition loadReviewBtcVsGold ::
  "network \<Rightarrow> platform \<Rightarrow> goldModule \<Rightarrow> string list \<Rightarrow> (error + unit) \<times> goldModule \<times> string list" where
  "loadReviewBtcVsGold net P m fetched =
     (if \<not> initialized m
      then (case ensureLoaded net P m fetched of
              (Inl e, m', fetched') \<Rightarrow> (Inl e, m', fetched')
            | (Inr _, m', fetched') \<Rightarrow> (Inr (), m'\<lparr>initialized := True\<rparr>, fetched'))
      else (Inr (), m, fetched))"


section \<open>router.js\<close>

subsection \<open>The route table\<close>

text \<open>
  The values the router compares with \<open>===\<close>: \<open>undefined\<close> (a property that an entry or a
  \<open>dataset\<close> does not have), \<open>null\<close> and strings. Strict equality on them is equality.
\<close>

datatype jsval = Undefined | Null | Str string

definition truthy :: "jsval \<Rightarrow> bool" where
  "truthy v = (case v of Undefined \<Rightarrow> False | Null \<Rightarrow> False | Str s \<Rightarrow> s \<noteq> [])"

text \<open>A value inside a template literal.\<close>

definition toStr :: "jsval \<Rightarrow> string" where
  "toStr v = (case v of Undefined \<Rightarrow> ''undefined'' | Null \<Rightarrow> ''null'' | Str s \<Rightarrow> s)"

record route =
  tab :: jsval
  subtab :: jsval
  subsubtab :: jsval

text \<open>
  \<open>ROUTES\<close>, in the order of the object literal, which is the order of
  \<open>Object.entries(ROUTES)\<close> (no key is an array index).
\<close>

definition ROUTES :: "(string \<times> route) list" where
  "ROUTES =
    [([],
       \<lparr>tab = Str ''home'', subtab = Null, subsubtab = Undefined\<rparr>),
     (''revolution/history'',
       \<lparr>tab = Str ''revolution'', subtab = Str ''REVOLUTION_HISTORY'', subsubtab = Undefined\<rparr>),
     (''revolution/pioneers'',
       \<lparr>tab = Str ''revolution'', subtab = Str ''REVOLUTION_PIONEERS'', subsubtab = Undefined\<rparr>),
     (''revolution/whitepaper'',
       \<lparr>tab = Str ''revolution'', subtab = Str ''REVOLUTION_WHITEPAPER'', subsubtab = Undefined\<rparr>),
     (''network/structure'',
       \<lparr>tab = Str ''network'', subtab = Str ''NETWORK_STRUCTURE'', subsubtab = Undefined\<rparr>),
     (''network/technology'',
       \<lparr>tab = Str ''network'', subtab = Str ''NETWORK_TECHNOLOGY'', subsubtab = Undefined\<rparr>),
     (''network/nodes'',
       \<lparr>tab = Str ''network'', subtab = Str ''NETWORK_NODES'', subsubtab = Undefined\<rparr>),
     (''network/miners'',
       \<lparr>tab = Str ''network'', subtab = Str ''NETWORK_MINER'', subsubtab = Undefined\<rparr>),
     (''metrics/price'',
       \<lparr>tab = Str ''metrics'', subtab = Str ''METRICS_BTC_USD_EUR'', subsubtab = Undefined\<rparr>),
     (''metrics/difficulty'',
       \<lparr>tab = Str ''metrics'', subtab = Str ''METRICS_BTC_DIFFICULTY'', subsubtab = Undefined\<rparr>),
     (''metrics/difficulty/1y'',
       \<lparr>tab = Str ''metrics'', subtab = Str ''METRICS_BTC_DIFFICULTY'', subsubtab = Str ''METRICS_BTC_DIFFICULTY_1Y''\<rparr>),
     (''metrics/difficulty/5y'',
       \<lparr>tab = Str ''metrics'', subtab = Str ''METRICS_BTC_DIFFICULTY'', subsubtab = Str ''METRICS_BTC_DIFFICULTY_5Y''\<rparr>),
     (''metrics/difficulty/10y'',
       \<lparr>tab = Str ''metrics'', subtab = Str ''METRICS_BTC_DIFFICULTY'', subsubtab = Str ''METRICS_BTC_DIFFICULTY_10Y''\<rparr>),
     (''metrics/difficulty/ever'',
       \<lparr>tab = Str ''metrics'', subtab = Str ''METRICS_BTC_DIFFICULTY'', subsubtab = Str ''METRICS_BTC_DIFFICULTY_EVER''\<rparr>),
     (''metrics/tx-volume'',
       \<lparr>tab = Str ''metrics'', subtab = Str ''METRICS_BTC_TX_VOLUME'', subsubtab = Undefined\<rparr>),
     (''metrics/tx-volume/1h'',
       \<lparr>tab = Str ''metrics'', subtab = Str ''METRICS_BTC_TX_VOLUME'', subsubtab = Str ''METRICS_BTC_TX_VOLUME_1H''\<rparr>),
     (''metrics/tx-volume/24h'',
       \<lparr>tab = Str ''metrics'', subtab = Str ''METRICS_BTC_TX_VOLUME'', subsubtab = Str ''METRICS_BTC_TX_VOLUME_24H''\<rparr>),
     (''metrics/tx-volume/1w'',
       \<lparr>tab = Str ''metrics'', subtab = Str ''METRICS_BTC_TX_VOLUME'', subsubtab = Str ''METRICS_BTC_TX_VOLUME_1W''\<rparr>),
     (''metrics/tx-volume/1m'',
       \<lparr>tab = Str ''metrics'', subtab = Str ''METRICS_BTC_TX_VOLUME'', subsubtab = Str ''METRICS_BTC_TX_VOLUME_1M''\<rparr>),
     (''metrics/tx-volume/1y'',
       \<lparr>tab = Str ''metrics'', subtab = Str ''METRICS_BTC_TX_VOLUME'', subsubtab = Str ''METRICS_BTC_TX_VOLUME_1J''\<rparr>),
     (''metrics/tx-amount'',
       \<lparr>tab = Str ''metrics'', subtab = Str ''METRICS_BTC_TX_AMOUNT'', subsubtab = Undefined\<rparr>),
     (''metrics/tx-amount/mempool'',
       \<lparr>tab = Str ''metrics'', subtab = Str ''METRICS_BTC_TX_AMOUNT'', subsubtab = Str ''METRICS_BTC_TX_AMOUNT_NOW''\<rparr>),
     (''metrics/tx-amount/24h'',
       \<lparr>tab = Str ''metrics'', subtab = Str ''METRICS_BTC_TX_AMOUNT'', subsubtab = Str ''METRICS_BTC_TX_AMOUNT_24H''\<rparr>),
     (''metrics/tx-amount/1w'',
       \<lparr>tab = Str ''metrics'', subtab = Str ''METRICS_BTC_TX_AMOUNT'', subsubtab = Str ''METRICS_BTC_TX_AMOUNT_1W''\<rparr>),
     (''metrics/tx-amount/1m'',
       \<lparr>tab = Str ''metrics'', subtab = Str ''METRICS_BTC_TX_AMOUNT'', subsubtab = Str ''METRICS_BTC_TX_AMOUNT_1M''\<rparr>),
     (''metrics/tx-amount/1y'',
       \<lparr>tab = Str ''metrics'', subtab = Str ''METRICS_BTC_TX_AMOUNT'', subsubtab = Str ''METRICS_BTC_TX_AMOUNT_1Y''\<rparr>),
     (''metrics/tx-amount/halving'',
       \<lparr>tab = Str ''metrics'', subtab = Str ''METRICS_BTC_TX_AMOUNT'', subsubtab = Str ''METRICS_BTC_TX_AMOUNT_HALVING''\<rparr>),
     (''metrics/tx-amount/ever'',
       \<lparr>tab = Str ''metrics'', subtab = Str ''METRICS_BTC_TX_AMOUNT'', subsubtab = Str ''METRICS_BTC_TX_AMOUNT_EVER''\<rparr>),
     (''metrics/tx-fees'',
       \<lparr>tab = Str ''metrics'', subtab = Str ''METRICS_BTC_TX_FEES'', subsubtab = Undefined\<rparr>),
     (''metrics/tx-fees/24h'',
       \<lparr>tab = Str ''metrics'', subtab = Str ''METRICS_BTC_TX_FEES'', subsubtab = Str ''METRICS_BTC_TX_FEES_24H''\<rparr>),
     (''metrics/tx-fees/1w'',
       \<lparr>tab = Str ''metrics'', subtab = Str ''METRICS_BTC_TX_FEES'', subsubtab = Str ''METRICS_BTC_TX_FEES_1W''\<rparr>),
     (''metrics/tx-fees/1m'',
       \<lparr>tab = Str ''metrics'', subtab = Str ''METRICS_BTC_TX_FEES'', subsubtab = Str ''METRICS_BTC_TX_FEES_1M''\<rparr>),
     (''metrics/tx-fees/1y'',
       \<lparr>tab = Str ''metrics'', subtab = Str ''METRICS_BTC_TX_FEES'', subsubtab = Str ''METRICS_BTC_TX_FEES_1J''\<rparr>),
     (''metrics/hashrate'',
       \<lparr>tab = Str ''metrics'', subtab = Str ''METRICS_BTC_HASHRATE'', subsubtab = Undefined\<rparr>),
     (''metrics/hashrate/1y'',
       \<lparr>tab = Str ''metrics'', subtab = Str ''METRICS_BTC_HASHRATE'', subsubtab = Str ''METRICS_BTC_HASHRATE_1Y''\<rparr>),
     (''metrics/hashrate/5y'',
       \<lparr>tab = Str ''metrics'', subtab = Str ''METRICS_BTC_HASHRATE'', subsubtab = Str ''METRICS_BTC_HASHRATE_5Y''\<rparr>),
     (''metrics/hashrate/10y'',
       \<lparr>tab = Str ''metrics'', subtab = Str ''METRICS_BTC_HASHRATE'', subsubtab = Str ''METRICS_BTC_HASHRATE_10Y''\<rparr>),
     (''metrics/hashrate/ever'',
       \<lparr>tab = Str ''metrics'', subtab = Str ''METRICS_BTC_HASHRATE'', subsubtab = Str ''METRICS_BTC_HASHRATE_EVER''\<rparr>),
     (''review/btc-fiat'',
       \<lparr>tab = Str ''review'', subtab = Str ''REVIEW_BTC_VS_FIAT'', subsubtab = Undefined\<rparr>),
     (''review/btc-gold'',
       \<lparr>tab = Str ''review'', subtab = Str ''REVIEW_BTC_VS_GOLD'', subsubtab = Undefined\<rparr>),
     (''review/btc-silver'',
       \<lparr>tab = Str ''review'', subtab = Str ''REVIEW_BTC_VS_SILVER'', subsubtab = Undefined\<rparr>),
     (''review/tx-volume'',
       \<lparr>tab = Str ''review'', subtab = Str ''REVIEW_BTC_TX_VOLUME'', subsubtab = Undefined\<rparr>),
     (''review/tx-amount'',
       \<lparr>tab = Str ''review'', subtab = Str ''REVIEW_BTC_TX_AMOUNT'', subsubtab = Undefined\<rparr>),
     (''review/tx-fees'',
       \<lparr>tab = Str ''review'', subtab = Str ''REVIEW_BTC_TX_FEES'', subsubtab = Undefined\<rparr>),
     (''explorer/transaction'',
       \<lparr>tab = Str ''explorer'', subtab = Str ''EXPLORER_TXID'', subsubtab = Undefined\<rparr>),
     (''explorer/address'',
       \<lparr>tab = Str ''explorer'', subtab = Str ''EXPLORER_ADDRESS'', subsubtab = Undefined\<rparr>),
     (''explorer/wallet'',
       \<lparr>tab = Str ''explorer'', subtab = Str ''EXPLORER_WALLET'', subsubtab = Undefined\<rparr>),
     (''treasuries/companies'',
       \<lparr>tab = Str ''treasuries'', subtab = Str ''TREASURIES_COMPANIES'', subsubtab = Undefined\<rparr>),
     (''treasuries/institutions'',
       \<lparr>tab = Str ''treasuries'', subtab = Str ''TREASURIES_INSTITUTIONS'', subsubtab = Undefined\<rparr>),
     (''treasuries/countries'',
       \<lparr>tab = Str ''treasuries'', subtab = Str ''TREASURIES_COUNTRIES'', subsubtab = Undefined\<rparr>),
     (''market-cap/crypto'',
       \<lparr>tab = Str ''market_cap'', subtab = Str ''MARKET_CAP_COINS'', subsubtab = Undefined\<rparr>),
     (''market-cap/companies'',
       \<lparr>tab = Str ''market_cap'', subtab = Str ''MARKET_CAP_COMPANIES'', subsubtab = Undefined\<rparr>),
     (''market-cap/currencies'',
       \<lparr>tab = Str ''market_cap'', subtab = Str ''MARKET_CAP_CURRENCIES'', subsubtab = Undefined\<rparr>),
     (''market-cap/commodities'',
       \<lparr>tab = Str ''market_cap'', subtab = Str ''MARKET_CAP_COMMODITIES'', subsubtab = Undefined\<rparr>),
     (''indicators/pi-cycle-top'',
       \<lparr>tab = Str ''indicators'', subtab = Str ''INDICATORS_PI_CYCLE_TOP'', subsubtab = Undefined\<rparr>),
     (''indicators/golden-ratio'',
       \<lparr>tab = Str ''indicators'', subtab = Str ''INDICATORS_GOLDEN_RATIO'', subsubtab = Undefined\<rparr>),
     (''indicators/rainbow'',
       \<lparr>tab = Str ''indicators'', subtab = Str ''INDICATORS_RAINBOW_CHART'', subsubtab = Undefined\<rparr>),
     (''indicators/mayer-multiple'',
       \<lparr>tab = Str ''indicators'', subtab = Str ''INDICATORS_MAYER_MULTIPLE'', subsubtab = Undefined\<rparr>),
     (''indicators/stock-to-flow'',
       \<lparr>tab = Str ''indicators'', subtab = Str ''INDICATORS_STOCK_TO_FLOW'', subsubtab = Undefined\<rparr>),
     (''indicators/btc-vs-m2'',
       \<lparr>tab = Str ''indicators'', subtab = Str ''INDICATORS_BTC_M2'', subsubtab = Undefined\<rparr>),
     (''indicators/sp500-vs-btc'',
       \<lparr>tab = Str ''indicators'', subtab = Str ''INDICATORS_S&P500_BTC'', subsubtab = Undefined\<rparr>),
     (''info/status'',
       \<lparr>tab = Str ''info'', subtab = Str ''INFO_STATUS'', subsubtab = Undefined\<rparr>),
     (''info/traffic'',
       \<lparr>tab = Str ''info'', subtab = Str ''INFO_DASHBOARD_TRAFFIC'', subsubtab = Undefined\<rparr>),
     (''info/imprint'',
       \<lparr>tab = Str ''info'', subtab = Str ''INFO_IMPRESSUM'', subsubtab = Undefined\<rparr>)]"

text \<open>
  The lookup \<open>ROUTES[cleanPath]\<close> as \<open>routeTo\<close> reads it. A key of the literal gives its
  entry. A name that the object inherits from \<open>Object.prototype\<close> gives a function or an
  object, which is truthy and has none of the three properties, so that the destructuring
  reads \<open>undefined\<close> three times. Every other string gives \<open>undefined\<close>, here \<open>None\<close>.
\<close>

definition Object_prototype_keys :: "string list" where
  "Object_prototype_keys =
     [''constructor'', ''__defineGetter__'', ''__defineSetter__'', ''hasOwnProperty'',
      ''__lookupGetter__'', ''__lookupSetter__'', ''isPrototypeOf'',
      ''propertyIsEnumerable'', ''toString'', ''valueOf'', ''__proto__'',
      ''toLocaleString'']"

definition lookupRoute :: "string \<Rightarrow> route option" where
  "lookupRoute cleanPath =
     (case map_of ROUTES cleanPath of
        Some rt \<Rightarrow> Some rt
      | None \<Rightarrow>
          (if cleanPath \<in> set Object_prototype_keys
           then Some \<lparr>tab = Undefined, subtab = Undefined, subsubtab = Undefined\<rparr>
           else None))"

text \<open>The reverse lookups \<open>Object.entries(ROUTES).find(...)\<close> of the three click handlers.\<close>

definition findByTab :: "jsval \<Rightarrow> (string \<times> route) option" where
  "findByTab v = find (\<lambda>(_, r). tab r = v) ROUTES"

definition findBySubtab :: "jsval \<Rightarrow> (string \<times> route) option" where
  "findBySubtab v = find (\<lambda>(_, r). subtab r = v) ROUTES"

definition findBySubsubtab :: "jsval \<Rightarrow> (string \<times> route) option" where
  "findBySubsubtab v = find (\<lambda>(_, r). subsubtab r = v) ROUTES"

subsection \<open>The page\<close>

text \<open>
  An element with what the selectors of the router read: its classes and its
  \<open>data-tab\<close>, \<open>data-subtab\<close> and \<open>data-subsubtab\<close> attributes. A node is an element
  followed by its ancestors up to the root, which is what \<open>closest\<close> walks; the document
  lists its nodes in document order, which is what \<open>querySelector\<close> walks, and says
  whether the page defines the global function \<open>showSubTab\<close>.
\<close>

record element =
  classes :: "string list"
  data_tab :: "string option"
  data_subtab :: "string option"
  data_subsubtab :: "string option"

type_synonym node = "element list"

record document =
  nodes :: "node list"
  showSubTab_defined :: bool

definition dataset_attr :: "string option \<Rightarrow> jsval" where
  "dataset_attr a = (case a of None \<Rightarrow> Undefined | Some s \<Rightarrow> Str s)"

definition closest :: "(element \<Rightarrow> bool) \<Rightarrow> node \<Rightarrow> element option" where
  "closest sel n = find sel n"

definition querySelector :: "(element \<Rightarrow> bool) \<Rightarrow> document \<Rightarrow> node option" where
  "querySelector sel doc = find (\<lambda>n. case n of [] \<Rightarrow> False | e # _ \<Rightarrow> sel e) (nodes doc)"

definition hasClass :: "string \<Rightarrow> element \<Rightarrow> bool" where
  "hasClass c e = (c \<in> set (classes e))"

text \<open>
  The state the router reads and writes: \<open>window.__ROUTER_ACTIVE__\<close>, the paths given to
  \<open>history.pushState\<close> (oldest first), and the activations handed to the rest of the page:
  a click that reaches an element's own listeners, and a call of \<open>showSubTab\<close>.
\<close>

datatype activation = Clicked node | ShowSubTab node

record page =
  ROUTER_ACTIVE :: bool
  pushed :: "string list"
  activations :: "activation list"

definition pushState :: "string \<Rightarrow> page \<Rightarrow> page" where
  "pushState path pg = pg\<lparr>pushed := pushed pg @ [path]\<rparr>"

subsection \<open>The click listeners on the document\<close>

definition onTabClick :: "node \<Rightarrow> page \<Rightarrow> page" where
  "onTabClick target pg =
     (case closest (hasClass ''tabButton'') target of
        None \<Rightarrow> pg
      | Some btn \<Rightarrow>
          (case findByTab (dataset_attr (data_tab btn)) of
             None \<Rightarrow> pg
           | Some (path, _) \<Rightarrow> pushState path pg))"

definition onSubtabClick :: "node \<Rightarrow> page \<Rightarrow> page" where
  "onSubtabClick target pg =
     (case closest (hasClass ''subTabButton'') target of
        None \<Rightarrow> pg
      | Some btn \<Rightarrow>
          (case findBySubtab (dataset_attr (data_subtab btn)) of
             None \<Rightarrow> pg
           | Some (path, _) \<Rightarrow> pushState path pg))"

definition onSubsubtabClick :: "node \<Rightarrow> page \<Rightarrow> page" where
  "onSubsubtabClick target pg =
     (case closest (\<lambda>e. data_subsubtab e \<noteq> None) target of
        None \<Rightarrow> pg
      | Some btn \<Rightarrow>
          (if ROUTER_ACTIVE pg then pg
           else (case findBySubsubtab (dataset_attr (data_subsubtab btn)) of
                   None \<Rightarrow> pg
                 | Some (path, _) \<Rightarrow> pushState path pg)))"

text \<open>
  A click on \<open>target\<close>, by the user or by \<open>element.click()\<close>: the event reaches the
  listeners of the element (the rest of the page), then bubbles to the document, whose
  three listeners run in the order of their registration.
\<close>

definition click :: "node \<Rightarrow> page \<Rightarrow> page" where
  "click target pg =
     onSubsubtabClick target
       (onSubtabClick target
         (onTabClick target (pg\<lparr>activations := activations pg @ [Clicked target]\<rparr>)))"

subsection \<open>routeTo\<close>

text \<open>\<open>path.replace(/^\/|\/$/g, "")\<close>: one leading and one trailing slash are removed.\<close>

definition stripSlashes :: "string \<Rightarrow> string" where
  "stripSlashes path =
     (let p1 = (case path of c # cs \<Rightarrow> (if c = CHR ''/'' then cs else path) | [] \<Rightarrow> path)
      in if p1 \<noteq> [] \<and> last p1 = CHR ''/'' then butlast p1 else p1)"

text \<open>The two callbacks \<open>routeTo\<close> hands to \<open>setTimeout\<close>, with the identifier they look for.\<close>

datatype task = ActivateSubtab string | ActivateSubsubtab string

text \<open>
  \<open>routeTo(path)\<close> up to its return: the page, and the timers it has set, each with its
  delay in milliseconds.
\<close>

definition routeTo :: "document \<Rightarrow> string \<Rightarrow> page \<Rightarrow> page \<times> (nat \<times> task) list" where
  "routeTo doc path pg =
     (let cleanPath = stripSlashes path
      in case lookupRoute cleanPath of
           None \<Rightarrow> (pg, [])
         | Some rt \<Rightarrow>
             (let pg1 = pg\<lparr>ROUTER_ACTIVE := True\<rparr>
              in case querySelector
                        (\<lambda>e. hasClass ''tabButton'' e \<and> data_tab e = Some (toStr (tab rt))) doc of
                   None \<Rightarrow> (pg1, [])
                 | Some mainBtn \<Rightarrow>
                     (let pg2 = click mainBtn pg1;
                          timers = (if truthy (subtab rt)
                                    then [(60, ActivateSubtab (toStr (subtab rt)))] else [])
                      in if truthy (subsubtab rt)
                         then (pg2, timers @ [(140, ActivateSubsubtab (toStr (subsubtab rt)))])
                         else (pg2\<lparr>ROUTER_ACTIVE := False\<rparr>, timers))))"

text \<open>A timer callback when it fires.\<close>

fun runTask :: "document \<Rightarrow> task \<Rightarrow> page \<Rightarrow> page" where
  "runTask doc (ActivateSubtab s) pg =
     (case querySelector (\<lambda>e. hasClass ''subTabButton'' e \<and> data_subtab e = Some s) doc of
        None \<Rightarrow> pg
      | Some subBtn \<Rightarrow>
          (if showSubTab_defined doc
           then pg\<lparr>activations := activations pg @ [ShowSubTab subBtn]\<rparr>
           else pg))"
| "runTask doc (ActivateSubsubtab s) pg =
     (let pg1 = (case querySelector (\<lambda>e. data_subsubtab e = Some s) doc of
                   None \<Rightarrow> pg
                 | Some btn \<Rightarrow> click btn pg)
      in pg1\<lparr>ROUTER_ACTIVE := False\<rparr>)"

text \<open>
  The whole application of a path: \<open>routeTo\<close>, then its timers in the order of their
  delays, with nothing else happening on the page in between.
\<close>

definition applyPath :: "document \<Rightarrow> string \<Rightarrow> page \<Rightarrow> page" where
  "applyPath doc path pg =
     (case routeTo doc path pg of
        (pg1, timers) \<Rightarrow> foldl (\<lambda>p t. runTask doc (snd t) p) pg1 (sort_key fst timers))"


section \<open>Example inputs\<close>

text \<open>
  A platform for the examples. Its date parser knows the dates of the range catalog, one
  more day, and the last day a \<open>Date\<close> can hold, each at midnight UTC as ECMAScript reads
  a date-only string; its calendar year is the proleptic Gregorian one; its JSON reader
  fails on the empty line and reads every other line as one fixed record.
\<close>

definition exampleDates :: "(string \<times> int) list" where
  "exampleDates =
    [(''2009-01-03'', 1230940800000),
     (''2012-11-28'', 1354060800000),
     (''2016-07-09'', 1468022400000),
     (''2020-05-11'', 1589155200000),
     (''2024-04-20'', 1713571200000),
     (''2024-04-21'', 1713657600000),
     (''+275760-09-13'', 8640000000000000)]"

definition utcYearOf :: "int \<Rightarrow> int" where
  "utcYearOf t =
     (let z = t div 86400000 + 719468;
          era = z div 146097;
          doe = z - era * 146097;
          yoe = (doe - doe div 1460 + doe div 36524 - doe div 146096) div 365;
          doy = doe - (365 * yoe + yoe div 4 - yoe div 100);
          mp = (5 * doy + 2) div 153
      in yoe + era * 400 + (if mp < 10 then 0 else 1))"

definition examplePlatform :: platform where
  "examplePlatform =
     \<lparr>Date_parse = map_of exampleDates,
      utcFullYear = utcYearOf,
      JSON_parse = (\<lambda>l. if l = [] then None else Some (JObject (Some ''2024-04-20'') (Finite 100)))\<rparr>"

text \<open>A network whose first answer is a failure status and whose later answers are one line.\<close>

definition exampleNet :: network where
  "exampleNet k path = (if k = 0 then Response False [] else Response True ''{}'')"

text \<open>A page with one tab button, one subtab button and one sub-subtab button, none nested.\<close>

definition exampleDocument :: document where
  "exampleDocument =
     \<lparr>nodes =
        [[\<lparr>classes = [''tabButton''], data_tab = Some ''metrics'',
           data_subtab = None, data_subsubtab = None\<rparr>],
         [\<lparr>classes = [''subTabButton''], data_tab = None,
           data_subtab = Some ''METRICS_BTC_TX_AMOUNT'', data_subsubtab = None\<rparr>],
         [\<lparr>classes = [], data_tab = None,
           data_subtab = None, data_subsubtab = Some ''METRICS_BTC_TX_AMOUNT_24H''\<rparr>]],
      showSubTab_defined = True\<rparr>"

definition idlePage :: page where
  "idlePage = \<lparr>ROUTER_ACTIVE = False, pushed = [], activations = []\<rparr>"

text \<open>
  The control that shows an entry of the table, not nested in another control: the button
  of its sub-subtab when it names one, else the button of its subtab, else its tab button.
\<close>

definition controlOf :: "route \<Rightarrow> node" where
  "controlOf r =
     (if subsubtab r \<noteq> Undefined
      then [\<lparr>classes = [], data_tab = None, data_subtab = None,
             data_subsubtab = Some (toStr (subsubtab r))\<rparr>]
      else if truthy (subtab r)
      then [\<lparr>classes = [''subTabButton''], data_tab = None,
             data_subtab = Some (toStr (subtab r)), data_subsubtab = None\<rparr>]
      else [\<lparr>classes = [''tabButton''], data_tab = Some (toStr (tab r)),
             data_subtab = None, data_subsubtab = None\<rparr>])"

section \<open>Properties of the filters\<close>

lemma date_cmp_None [simp]:
  "date_ge a None = False" "date_le a None = False" "date_gt a None = False"
  "date_ge None b = False" "date_le None b = False" "date_gt None b = False"
  by (simp_all add: date_ge_def date_le_def date_gt_def split: option.splits)

lemma date_cmp_Some [simp]:
  "date_ge (Some u) (Some v) = (v \<le> u)" "date_le (Some u) (Some v) = (u \<le> v)"
  "date_gt (Some u) (Some v) = (v < u)"
  by (simp_all add: date_ge_def date_le_def date_gt_def)

lemma filterData_silver_gold: "filterData_silver P st d = filterData_gold P st d"
  by (simp add: filterData_silver_def filterData_gold_def)

subsection \<open>Identity\<close>

lemma filterData_gold_id:
  assumes "timeMode st = ''all''
     \<or> (timeMode st = ''year'' \<and> \<not> truthy_num (year st))
     \<or> (timeMode st = ''halving'' \<and> \<not> truthy_str (halvingCycle st))
     \<or> (timeMode st = ''custom'' \<and> (\<not> truthy_str (customStart st) \<or> \<not> truthy_str (customEnd st)))"
  shows "filterData_gold P st d = Inr d"
  using assms
  by (auto simp: filterData_gold_def filterHalving_def filterYear_def filterCustom_def)

lemma filterData_fiat_id:
  assumes "reviewChartState.timeMode st = ''all''
     \<or> (reviewChartState.timeMode st = ''year'' \<and> \<not> truthy_num (reviewChartState.year st))
     \<or> (reviewChartState.timeMode st = ''halving'' \<and> \<not> truthy_str (reviewChartState.halvingCycle st))
     \<or> reviewChartState.timeMode st = ''custom''"
  shows "filterData_fiat P st raw = Inr raw"
  using assms by (auto simp: filterData_fiat_def)

lemma unset_not_truthy [simp]: "\<not> truthy_num None" "\<not> truthy_str None"
  by (simp_all add: truthy_num_def truthy_str_def)

text \<open>
  C4. For every input series, the filter returns the input sequence itself when
  \<open>timeMode\<close> is \<open>all\<close>, when it is \<open>year\<close> and \<open>year\<close> is unset, when it is \<open>halving\<close>
  (the named range mode) and \<open>halvingCycle\<close> is unset, and when it is \<open>custom\<close> and
  \<open>customStart\<close> or \<open>customEnd\<close> is missing. Unset is \<open>null\<close>; the filter treats every
  other falsy value (0, \<open>NaN\<close>, the empty string) the same way. This holds in the gold and
  silver modules, and in the fiat module for the modes it has.
\<close>

theorem filter_identity:
  "(timeMode st = ''all''
     \<or> (timeMode st = ''year'' \<and> (year st = None \<or> \<not> truthy_num (year st)))
     \<or> (timeMode st = ''halving'' \<and> (halvingCycle st = None \<or> \<not> truthy_str (halvingCycle st)))
     \<or> (timeMode st = ''custom'' \<and>
          (customStart st = None \<or> customEnd st = None
           \<or> \<not> truthy_str (customStart st) \<or> \<not> truthy_str (customEnd st)))
    \<longrightarrow> filterData_gold P st d = Inr d \<and> filterData_silver P st d = Inr d)
   \<and> (reviewChartState.timeMode fs = ''all''
     \<or> (reviewChartState.timeMode fs = ''year''
          \<and> (reviewChartState.year fs = None \<or> \<not> truthy_num (reviewChartState.year fs)))
     \<or> (reviewChartState.timeMode fs = ''halving''
          \<and> (reviewChartState.halvingCycle fs = None
               \<or> \<not> truthy_str (reviewChartState.halvingCycle fs)))
    \<longrightarrow> filterData_fiat P fs raw = Inr raw)"
proof (intro conjI impI)
  assume a: "timeMode st = ''all''
     \<or> (timeMode st = ''year'' \<and> (year st = None \<or> \<not> truthy_num (year st)))
     \<or> (timeMode st = ''halving'' \<and> (halvingCycle st = None \<or> \<not> truthy_str (halvingCycle st)))
     \<or> (timeMode st = ''custom'' \<and>
          (customStart st = None \<or> customEnd st = None
           \<or> \<not> truthy_str (customStart st) \<or> \<not> truthy_str (customEnd st)))"
  then have "timeMode st = ''all''
     \<or> (timeMode st = ''year'' \<and> \<not> truthy_num (year st))
     \<or> (timeMode st = ''halving'' \<and> \<not> truthy_str (halvingCycle st))
     \<or> (timeMode st = ''custom'' \<and> (\<not> truthy_str (customStart st) \<or> \<not> truthy_str (customEnd st)))"
    by auto
  then show "filterData_gold P st d = Inr d"
    by (rule filterData_gold_id)
  then show "filterData_silver P st d = Inr d"
    by (simp add: filterData_silver_gold)
next
  assume "reviewChartState.timeMode fs = ''all''
     \<or> (reviewChartState.timeMode fs = ''year''
          \<and> (reviewChartState.year fs = None \<or> \<not> truthy_num (reviewChartState.year fs)))
     \<or> (reviewChartState.timeMode fs = ''halving''
          \<and> (reviewChartState.halvingCycle fs = None
               \<or> \<not> truthy_str (reviewChartState.halvingCycle fs)))"
  then have "reviewChartState.timeMode fs = ''all''
     \<or> (reviewChartState.timeMode fs = ''year'' \<and> \<not> truthy_num (reviewChartState.year fs))
     \<or> (reviewChartState.timeMode fs = ''halving'' \<and> \<not> truthy_str (reviewChartState.halvingCycle fs))
     \<or> reviewChartState.timeMode fs = ''custom''"
    by auto
  then show "filterData_fiat P fs raw = Inr raw"
    by (rule filterData_fiat_id)
qed

text \<open>
  The theorem on a series of two points, in \<open>custom\<close> mode with the end bound missing
  (gold and silver) and in \<open>year\<close> mode with no year chosen (fiat).
\<close>

theorem filter_identity_witness:
  "filterData_gold examplePlatform
     \<lparr>timeMode = ''custom'', year = None, halvingCycle = None, logScale = True,
      customStart = Some ''2024-04-20'', customEnd = None\<rparr>
     [\<lparr>x = Some 1713571200000, y = Finite 3\<rparr>, \<lparr>x = Some 1713657600000, y = Finite 4\<rparr>]
   = Inr [\<lparr>x = Some 1713571200000, y = Finite 3\<rparr>, \<lparr>x = Some 1713657600000, y = Finite 4\<rparr>]
   \<and> filterData_silver examplePlatform
     \<lparr>timeMode = ''custom'', year = None, halvingCycle = None, logScale = True,
      customStart = Some ''2024-04-20'', customEnd = None\<rparr>
     [\<lparr>x = Some 1713571200000, y = Finite 3\<rparr>, \<lparr>x = Some 1713657600000, y = Finite 4\<rparr>]
   = Inr [\<lparr>x = Some 1713571200000, y = Finite 3\<rparr>, \<lparr>x = Some 1713657600000, y = Finite 4\<rparr>]
   \<and> filterData_fiat examplePlatform
     \<lparr>assetClass = ''fiat'', fiat = ''usd'', reviewChartState.timeMode = ''year'',
      reviewChartState.year = None, reviewChartState.halvingCycle = None,
      reviewChartState.logScale = True\<rparr>
     [\<lparr>date = Some 1713571200000, value = Finite 3\<rparr>]
   = Inr [\<lparr>date = Some 1713571200000, value = Finite 3\<rparr>]"
  using filter_identity
    [where st = "\<lparr>timeMode = ''custom'', year = None, halvingCycle = None, logScale = True,
                  customStart = Some ''2024-04-20'', customEnd = None\<rparr>"
       and fs = "\<lparr>assetClass = ''fiat'', fiat = ''usd'', reviewChartState.timeMode = ''year'',
                  reviewChartState.year = None, reviewChartState.halvingCycle = None,
                  reviewChartState.logScale = True\<rparr>"
       and P = examplePlatform
       and d = "[\<lparr>x = Some 1713571200000, y = Finite 3\<rparr>, \<lparr>x = Some 1713657600000, y = Finite 4\<rparr>]"
       and raw = "[\<lparr>date = Some 1713571200000, value = Finite 3\<rparr>]"]
  by simp

subsection \<open>A range id that the catalog does not hold\<close>

lemma halving_unknown_gold:
  assumes "timeMode st = ''halving''" and "halvingCycle st = Some cyc" and "cyc \<noteq> []"
    and "cyc \<notin> set (map fst HALVING_RANGES)"
  shows "filterData_gold P st d = Inl TypeError"
proof -
  have "map_of HALVING_RANGES cyc = None"
    using assms(4) by (simp add: map_of_eq_None_iff)
  then show ?thesis
    using assms by (simp add: filterData_gold_def filterHalving_def filterYear_def truthy_str_def)
qed

lemma halving_unknown_fiat:
  assumes "reviewChartState.timeMode st = ''halving''"
    and "reviewChartState.halvingCycle st = Some cyc" and "cyc \<noteq> []"
    and "cyc \<notin> set (map fst HALVING_RANGES)"
  shows "filterData_fiat P st raw = Inl TypeError"
proof -
  have "map_of HALVING_RANGES cyc = None"
    using assms(4) by (simp add: map_of_eq_None_iff)
  then show ?thesis
    using assms by (simp add: filterData_fiat_def truthy_str_def)
qed

text \<open>
  C2 as stated fails: with \<open>timeMode = halving\<close> and the id \<open>2028_2032\<close>, which is not a
  key of \<open>HALVING_RANGES\<close>, the filter does not return its input; the destructuring of
  the missing entry throws.
\<close>

theorem unknown_range_counterexample:
  "filterData_gold examplePlatform
     \<lparr>timeMode = ''halving'', year = None, halvingCycle = Some ''2028_2032'', logScale = True,
      customStart = None, customEnd = None\<rparr>
     [\<lparr>x = Some 1713571200000, y = Finite 3\<rparr>]
   \<noteq> Inr [\<lparr>x = Some 1713571200000, y = Finite 3\<rparr>]
   \<and> filterData_gold examplePlatform
     \<lparr>timeMode = ''halving'', year = None, halvingCycle = Some ''2028_2032'', logScale = True,
      customStart = None, customEnd = None\<rparr>
     [\<lparr>x = Some 1713571200000, y = Finite 3\<rparr>]
   = Inl TypeError"
  by (simp add: filterData_gold_def filterHalving_def filterYear_def truthy_str_def
      HALVING_RANGES_def)

text \<open>
  C2, amended. For every input series, if \<open>timeMode\<close> is \<open>halving\<close> and \<open>halvingCycle\<close>
  is a non-empty id that is not a key of \<open>HALVING_RANGES\<close>, the filter fails with a
  \<open>TypeError\<close> and returns no series, in the gold, silver and fiat modules; it behaves as
  \<open>all\<close> when the id is the empty string (and when it is unset, see C4).
\<close>

theorem unknown_range_throws:
  "(timeMode st = ''halving'' \<and> halvingCycle st = Some cyc
      \<and> cyc \<notin> set (map fst HALVING_RANGES) \<longrightarrow>
      (cyc \<noteq> [] \<longrightarrow> filterData_gold P st d = Inl TypeError
                      \<and> filterData_silver P st d = Inl TypeError)
      \<and> (cyc = [] \<longrightarrow> filterData_gold P st d = Inr d \<and> filterData_silver P st d = Inr d))
   \<and> (reviewChartState.timeMode fs = ''halving'' \<and> reviewChartState.halvingCycle fs = Some cyc
      \<and> cyc \<notin> set (map fst HALVING_RANGES) \<longrightarrow>
      (cyc \<noteq> [] \<longrightarrow> filterData_fiat P fs raw = Inl TypeError)
      \<and> (cyc = [] \<longrightarrow> filterData_fiat P fs raw = Inr raw))"
proof (intro conjI impI)
  assume h: "timeMode st = ''halving'' \<and> halvingCycle st = Some cyc
      \<and> cyc \<notin> set (map fst HALVING_RANGES)"
  {
    assume "cyc \<noteq> []"
    with h show "filterData_gold P st d = Inl TypeError"
      by (simp add: halving_unknown_gold)
    then show "filterData_silver P st d = Inl TypeError"
      by (simp add: filterData_silver_gold)
  }
  {
    assume "cyc = []"
    with h have "timeMode st = ''halving'' \<and> \<not> truthy_str (halvingCycle st)"
      by (simp add: truthy_str_def)
    then show "filterData_gold P st d = Inr d"
      by (simp add: filterData_gold_id)
    then show "filterData_silver P st d = Inr d"
      by (simp add: filterData_silver_gold)
  }
next
  assume h: "reviewChartState.timeMode fs = ''halving''
      \<and> reviewChartState.halvingCycle fs = Some cyc
      \<and> cyc \<notin> set (map fst HALVING_RANGES)"
  {
    assume "cyc \<noteq> []"
    with h show "filterData_fiat P fs raw = Inl TypeError"
      by (simp add: halving_unknown_fiat)
  }
  {
    assume "cyc = []"
    with h have "reviewChartState.timeMode fs = ''halving''
        \<and> \<not> truthy_str (reviewChartState.halvingCycle fs)"
      by (simp add: truthy_str_def)
    then show "filterData_fiat P fs raw = Inr raw"
      by (simp add: filterData_fiat_id)
  }
qed

text \<open>
  The theorem on the id \<open>2028_2032\<close>, on the empty series in the gold and silver modules
  and on a series of one point in the fiat module: the filter throws in each.
\<close>

theorem unknown_range_throws_witness:
  "filterData_gold examplePlatform
     \<lparr>timeMode = ''halving'', year = None, halvingCycle = Some ''2028_2032'', logScale = True,
      customStart = None, customEnd = None\<rparr> [] = Inl TypeError
   \<and> filterData_silver examplePlatform
     \<lparr>timeMode = ''halving'', year = None, halvingCycle = Some ''2028_2032'', logScale = True,
      customStart = None, customEnd = None\<rparr> [] = Inl TypeError
   \<and> filterData_fiat examplePlatform
     \<lparr>assetClass = ''fiat'', fiat = ''usd'', reviewChartState.timeMode = ''halving'',
      reviewChartState.year = None, reviewChartState.halvingCycle = Some ''2028_2032'',
      reviewChartState.logScale = True\<rparr>
     [\<lparr>date = Some 1713571200000, value = Finite 3\<rparr>] = Inl TypeError"
  using unknown_range_throws
    [where st = "\<lparr>timeMode = ''halving'', year = None, halvingCycle = Some ''2028_2032'',
                  logScale = True, customStart = None, customEnd = None\<rparr>"
       and fs = "\<lparr>assetClass = ''fiat'', fiat = ''usd'', reviewChartState.timeMode = ''halving'',
                  reviewChartState.year = None, reviewChartState.halvingCycle = Some ''2028_2032'',
                  reviewChartState.logScale = True\<rparr>"
       and cyc = "''2028_2032''" and P = examplePlatform and d = "[]"
       and raw = "[\<lparr>date = Some 1713571200000, value = Finite 3\<rparr>]"]
  by (simp add: HALVING_RANGES_def)

subsection \<open>The custom range\<close>

text \<open>The window that the custom block cuts is the same for a pair of dates and the swapped pair.\<close>

lemma clamp_window_swap:
  "(case clampDateOrder u v of (s, e) \<Rightarrow>
      filter (\<lambda>p. date_ge (x p) s \<and>
                   date_le (x p) (newDate_number (map_option (\<lambda>t. t + 86400000 - 1) e))) out)
   = (case clampDateOrder v u of (s, e) \<Rightarrow>
      filter (\<lambda>p. date_ge (x p) s \<and>
                   date_le (x p) (newDate_number (map_option (\<lambda>t. t + 86400000 - 1) e))) out)"
proof (cases u)
  case None
  then show ?thesis
    by (simp add: clampDateOrder_def truthy_date_def newDate_number_def)
next
  case (Some a)
  note ua = this
  show ?thesis
  proof (cases v)
    case None
    with ua show ?thesis
      by (simp add: clampDateOrder_def truthy_date_def newDate_number_def)
  next
    case (Some b)
    with ua show ?thesis
      by (cases "a < b"; cases "a = b") (simp_all add: clampDateOrder_def truthy_date_def)
  qed
qed

lemma filterCustom_swap:
  "filterCustom P (st\<lparr>customStart := a, customEnd := b\<rparr>) out
   = filterCustom P (st\<lparr>customStart := b, customEnd := a\<rparr>) out"
proof (cases a)
  case None
  then show ?thesis by (simp add: filterCustom_def truthy_str_def)
next
  case (Some cs)
  note a = this
  show ?thesis
  proof (cases b)
    case None
    then show ?thesis by (simp add: filterCustom_def truthy_str_def)
  next
    case (Some ce)
    with a show ?thesis
      using clamp_window_swap
        [where u = "newDate_string P cs" and v = "newDate_string P ce" and out = out]
      by (auto simp: filterCustom_def truthy_str_def Let_def split: prod.splits)
  qed
qed

lemma filterYear_custom_upd:
  "filterYear P (st\<lparr>customStart := a, customEnd := b\<rparr>) out = filterYear P st out"
  by (simp add: filterYear_def)

lemma filterHalving_custom_upd:
  "filterHalving P (st\<lparr>customStart := a, customEnd := b\<rparr>) out = filterHalving P st out"
  by (simp add: filterHalving_def)

text \<open>
  C6. For every series and every pair of custom bounds \<open>a\<close>, \<open>b\<close> (strings, or unset),
  filtering with \<open>customStart = a\<close>, \<open>customEnd = b\<close> gives the same result as filtering
  with \<open>customStart = b\<close>, \<open>customEnd = a\<close>, whatever the rest of the state is, in the
  gold and in the silver module.
\<close>

theorem custom_bounds_swap:
  "filterData_gold P (st\<lparr>customStart := a, customEnd := b\<rparr>) d
     = filterData_gold P (st\<lparr>customStart := b, customEnd := a\<rparr>) d
   \<and> filterData_silver P (st\<lparr>customStart := a, customEnd := b\<rparr>) d
     = filterData_silver P (st\<lparr>customStart := b, customEnd := a\<rparr>) d"
  by (simp add: filterData_gold_def filterData_silver_def filterYear_custom_upd
      filterHalving_custom_upd filterCustom_swap [where P = P and st = st and a = a and b = b]
      split: sum.splits)

text \<open>
  The theorem on bounds out of order: 21 April to 20 April 2024 gives the points of both
  days, as 20 April to 21 April does.
\<close>

theorem custom_bounds_swap_witness:
  "filterData_gold examplePlatform
     \<lparr>timeMode = ''custom'', year = None, halvingCycle = None, logScale = True,
      customStart = Some ''2024-04-21'', customEnd = Some ''2024-04-20''\<rparr>
     [\<lparr>x = Some 1713571199999, y = Finite 1\<rparr>, \<lparr>x = Some 1713571200000, y = Finite 2\<rparr>,
      \<lparr>x = Some 1713743999999, y = Finite 3\<rparr>, \<lparr>x = Some 1713744000000, y = Finite 4\<rparr>]
   = filterData_gold examplePlatform
     \<lparr>timeMode = ''custom'', year = None, halvingCycle = None, logScale = True,
      customStart = Some ''2024-04-20'', customEnd = Some ''2024-04-21''\<rparr>
     [\<lparr>x = Some 1713571199999, y = Finite 1\<rparr>, \<lparr>x = Some 1713571200000, y = Finite 2\<rparr>,
      \<lparr>x = Some 1713743999999, y = Finite 3\<rparr>, \<lparr>x = Some 1713744000000, y = Finite 4\<rparr>]
   \<and> filterData_gold examplePlatform
     \<lparr>timeMode = ''custom'', year = None, halvingCycle = None, logScale = True,
      customStart = Some ''2024-04-20'', customEnd = Some ''2024-04-21''\<rparr>
     [\<lparr>x = Some 1713571199999, y = Finite 1\<rparr>, \<lparr>x = Some 1713571200000, y = Finite 2\<rparr>,
      \<lparr>x = Some 1713743999999, y = Finite 3\<rparr>, \<lparr>x = Some 1713744000000, y = Finite 4\<rparr>]
   = Inr [\<lparr>x = Some 1713571200000, y = Finite 2\<rparr>, \<lparr>x = Some 1713743999999, y = Finite 3\<rparr>]"
proof -
  have "filterData_gold examplePlatform
     \<lparr>timeMode = ''custom'', year = None, halvingCycle = None, logScale = True,
      customStart = Some ''2024-04-20'', customEnd = Some ''2024-04-21''\<rparr>
     [\<lparr>x = Some 1713571199999, y = Finite 1\<rparr>, \<lparr>x = Some 1713571200000, y = Finite 2\<rparr>,
      \<lparr>x = Some 1713743999999, y = Finite 3\<rparr>, \<lparr>x = Some 1713744000000, y = Finite 4\<rparr>]
   = Inr [\<lparr>x = Some 1713571200000, y = Finite 2\<rparr>, \<lparr>x = Some 1713743999999, y = Finite 3\<rparr>]"
    by (simp add: filterData_gold_def filterHalving_def filterYear_def filterCustom_def
        truthy_str_def clampDateOrder_def truthy_date_def newDate_string_def newDate_number_def
        TimeClip_def examplePlatform_def exampleDates_def)
  then show ?thesis
    using custom_bounds_swap
      [where P = examplePlatform
         and st = "\<lparr>timeMode = ''custom'', year = None, halvingCycle = None, logScale = True,
                    customStart = None, customEnd = None\<rparr>"
         and a = "Some ''2024-04-21''" and b = "Some ''2024-04-20''"
         and d = "[\<lparr>x = Some 1713571199999, y = Finite 1\<rparr>, \<lparr>x = Some 1713571200000, y = Finite 2\<rparr>,
                   \<lparr>x = Some 1713743999999, y = Finite 3\<rparr>, \<lparr>x = Some 1713744000000, y = Finite 4\<rparr>]"]
    by simp
qed

text \<open>
  A day that starts at the time value \<open>t\<close> (a multiple of 86400000) holds the time values
  from \<open>t\<close> to \<open>t + 86400000 - 1\<close>.
\<close>

lemma day_window:
  fixes t v :: int
  assumes "t mod 86400000 = 0"
  shows "(t \<le> v \<and> v \<le> t + 86400000 - 1) = (v div 86400000 = t div 86400000)"
proof -
  define q where "q = t div 86400000"
  define q' where "q' = v div 86400000"
  define r where "r = v mod 86400000"
  have t: "t = 86400000 * q"
    using mult_div_mod_eq [of 86400000 t] assms unfolding q_def by simp
  have v: "v = 86400000 * q' + r"
    unfolding q'_def r_def by simp
  have r: "0 \<le> r" "r < 86400000"
    unfolding r_def by simp_all
  show ?thesis
    unfolding q_def [symmetric] q'_def [symmetric]
    using t v r by auto
qed

lemma filterCustom_single_day:
  assumes "timeMode st = ''custom''" and "customStart st = Some D" and "customEnd st = Some D"
    and "D \<noteq> []"
    and "Date_parse P D = Some t" and "t mod 86400000 = 0"
    and "- 8640000000000000 \<le> t" and "t + 86400000 - 1 \<le> 8640000000000000"
  shows "filterCustom P st d =
           filter (\<lambda>p. case x p of None \<Rightarrow> False
                        | Some v \<Rightarrow> v div 86400000 = t div 86400000) d"
proof -
  have nd: "newDate_string P D = Some t"
    using assms by (simp add: newDate_string_def TimeClip_def)
  have en: "newDate_number (Some (t + 86400000 - 1)) = Some (t + 86400000 - 1)"
    using assms by (simp add: newDate_number_def TimeClip_def)
  have "filterCustom P st d =
          filter (\<lambda>p. date_ge (x p) (Some t) \<and> date_le (x p) (Some (t + 86400000 - 1))) d"
    using assms nd en
    by (simp add: filterCustom_def truthy_str_def clampDateOrder_def truthy_date_def)
  also have "\<dots> = filter (\<lambda>p. case x p of None \<Rightarrow> False
                               | Some v \<Rightarrow> v div 86400000 = t div 86400000) d"
    using day_window [OF assms(6)]
    by (intro filter_cong) (auto split: option.splits)
  finally show ?thesis .
qed

text \<open>
  C5 as stated fails on the last day a \<open>Date\<close> can hold. The day +275760-09-13 starts at
  the time value 8640000000000000, the largest one; the end of that day is past it, so
  \<open>new Date(end.getTime() + 86400000 - 1)\<close> is an Invalid Date, every comparison with it
  is false, and the point at the start of the day is dropped.
\<close>

theorem custom_single_day_counterexample:
  "Date_parse examplePlatform ''+275760-09-13'' = Some 8640000000000000
   \<and> (8640000000000000 :: int) mod 86400000 = 0
   \<and> TimeClip 8640000000000000 = Some 8640000000000000
   \<and> filterData_gold examplePlatform
       \<lparr>timeMode = ''custom'', year = None, halvingCycle = None, logScale = True,
        customStart = Some ''+275760-09-13'', customEnd = Some ''+275760-09-13''\<rparr>
       [\<lparr>x = Some 8640000000000000, y = Finite 1\<rparr>]
     = Inr []"
  by (simp add: filterData_gold_def filterHalving_def filterYear_def filterCustom_def
      truthy_str_def clampDateOrder_def truthy_date_def newDate_string_def newDate_number_def
      TimeClip_def examplePlatform_def exampleDates_def)

text \<open>
  C5, amended. Let \<open>D\<close> be a date that the platform reads as midnight UTC of a day (time
  value \<open>t\<close>, a multiple of 86400000) whose last millisecond is still a time value of
  \<open>Date\<close> (\<open>t + 86400000 - 1 \<le> 8.64e15\<close>). For every series, filtering with \<open>timeMode\<close>
  \<open>custom\<close> and \<open>customStart = customEnd = D\<close> returns exactly the points whose timestamp
  falls on the UTC calendar day \<open>D\<close>, in their order, in the gold and the silver module.
\<close>

theorem custom_single_day:
  assumes "timeMode st = ''custom''" and "customStart st = Some D" and "customEnd st = Some D"
    and "D \<noteq> []"
    and "Date_parse P D = Some t" and "t mod 86400000 = 0"
    and "- 8640000000000000 \<le> t" and "t + 86400000 - 1 \<le> 8640000000000000"
  shows "filterData_gold P st d =
           Inr (filter (\<lambda>p. case x p of None \<Rightarrow> False
                             | Some v \<Rightarrow> v div 86400000 = t div 86400000) d)
       \<and> filterData_silver P st d =
           Inr (filter (\<lambda>p. case x p of None \<Rightarrow> False
                             | Some v \<Rightarrow> v div 86400000 = t div 86400000) d)"
  using assms(1) filterCustom_single_day [OF assms]
  by (simp add: filterData_gold_def filterData_silver_def filterHalving_def filterYear_def)

text \<open>
  The theorem on 20 April 2024 and a series with the last millisecond of the day before,
  the first and the last millisecond of the day, and the first of the day after: the two
  points of the day are returned.
\<close>

theorem custom_single_day_witness:
  "filterData_gold examplePlatform
     \<lparr>timeMode = ''custom'', year = None, halvingCycle = None, logScale = True,
      customStart = Some ''2024-04-20'', customEnd = Some ''2024-04-20''\<rparr>
     [\<lparr>x = Some 1713571199999, y = Finite 1\<rparr>, \<lparr>x = Some 1713571200000, y = Finite 2\<rparr>,
      \<lparr>x = Some 1713657599999, y = Finite 3\<rparr>, \<lparr>x = Some 1713657600000, y = Finite 4\<rparr>]
   = Inr [\<lparr>x = Some 1713571200000, y = Finite 2\<rparr>, \<lparr>x = Some 1713657599999, y = Finite 3\<rparr>]"
proof -
  have h: "Date_parse examplePlatform ''2024-04-20'' = Some 1713571200000"
    by (simp add: examplePlatform_def exampleDates_def)
  show ?thesis
    using custom_single_day
      [where st = "\<lparr>timeMode = ''custom'', year = None, halvingCycle = None, logScale = True,
                    customStart = Some ''2024-04-20'', customEnd = Some ''2024-04-20''\<rparr>"
         and D = "''2024-04-20''" and P = examplePlatform and t = 1713571200000
         and d = "[\<lparr>x = Some 1713571199999, y = Finite 1\<rparr>, \<lparr>x = Some 1713571200000, y = Finite 2\<rparr>,
                   \<lparr>x = Some 1713657599999, y = Finite 3\<rparr>, \<lparr>x = Some 1713657600000, y = Finite 4\<rparr>]"]
      h
    by simp
qed

subsection \<open>The fiat module has no custom range\<close>

text \<open>
  C10. In the fiat module the filter has no block for \<open>timeMode = custom\<close>: for every
  input series it returns the input unchanged in that mode, whatever else the state
  object carries (any extension of the record, custom bounds included), and the state
  record \<open>reviewChartState\<close> itself consists of the six fields \<open>assetClass\<close>, \<open>fiat\<close>,
  \<open>timeMode\<close>, \<open>year\<close>, \<open>halvingCycle\<close> and \<open>logScale\<close>, with no \<open>customStart\<close> or
  \<open>customEnd\<close>.
\<close>

theorem fiat_filter_no_custom:
  fixes st :: "'a reviewChartState_scheme" and cs :: reviewChartState
  shows "(reviewChartState.timeMode st = ''custom'' \<longrightarrow> filterData_fiat P st raw = Inr raw)
       \<and> cs = \<lparr>assetClass = assetClass cs, fiat = fiat cs,
               reviewChartState.timeMode = reviewChartState.timeMode cs,
               reviewChartState.year = reviewChartState.year cs,
               reviewChartState.halvingCycle = reviewChartState.halvingCycle cs,
               reviewChartState.logScale = reviewChartState.logScale cs\<rparr>"
  by (simp add: filterData_fiat_id)

text \<open>
  The theorem on a state object that carries custom bounds besides the six fields: the
  bounds select nothing.
\<close>

theorem fiat_filter_no_custom_witness:
  "filterData_fiat examplePlatform
     \<lparr>assetClass = ''fiat'', fiat = ''usd'', reviewChartState.timeMode = ''custom'',
      reviewChartState.year = None, reviewChartState.halvingCycle = None,
      reviewChartState.logScale = True,
      \<dots> = (Some ''2024-04-20'', Some ''2024-04-20'')\<rparr>
     [\<lparr>date = Some 1230940800000, value = Finite 1\<rparr>, \<lparr>date = Some 1713571200000, value = Finite 2\<rparr>]
   = Inr [\<lparr>date = Some 1230940800000, value = Finite 1\<rparr>, \<lparr>date = Some 1713571200000, value = Finite 2\<rparr>]"
  using fiat_filter_no_custom
    [where st = "\<lparr>assetClass = ''fiat'', fiat = ''usd'', reviewChartState.timeMode = ''custom'',
                  reviewChartState.year = None, reviewChartState.halvingCycle = None,
                  reviewChartState.logScale = True,
                  \<dots> = (Some ''2024-04-20'', Some ''2024-04-20'')\<rparr>"
       and P = examplePlatform
       and raw = "[\<lparr>date = Some 1230940800000, value = Finite 1\<rparr>,
                   \<lparr>date = Some 1713571200000, value = Finite 2\<rparr>]"]
  by simp

section \<open>Properties of the performance overlay\<close>









text \<open>
  The doubles nearest to 0.1 and to 0.3, and the three operations on them: the result is
  the double below 200 (199.99999999999997), where the expression over the reals on 0.1
  and 0.3 is 200.
\<close>

lemma round64_tenth: "round64 (1 / 10) = Finite (3602879701896397 / 36028797018963968)"
  by code_simp

lemma round64_three_tenths: "round64 (3 / 10) = Finite (5404319552844595 / 18014398509481984)"
  by code_simp








section \<open>Properties of the adaptive time scale\<close>

lemma getTimeScaleConfig_custom:
  assumes "timeMode st = ''custom''" and "data \<noteq> []"
    and "x (hd data) = Some a" and "x (last data) = Some b"
  shows "getTimeScaleConfig st data =
           (if real_of_int (b - a) / (1000*60*60*24*365) < 1
              then \<lparr>unit = ''month'', callback = Some MonthShort\<rparr>
            else if real_of_int (b - a) / (1000*60*60*24*365) < 5
              then \<lparr>unit = ''quarter'', callback = Some QuarterYear2\<rparr>
            else \<lparr>unit = ''year'', callback = Some FullYear\<rparr>)"
  using assms
  by (cases data) (simp_all add: getTimeScaleConfig_def diffYears_def js_less_def Let_def)

lemma updateChart_creates:
  assumes "updateChart P st canvas (Some series) None = Inr (Some c)"
  shows "filterData_gold P st series = Inr (dataset c)
       \<and> xUnit c = unit (getTimeScaleConfig st (dataset c))
       \<and> xCallback c = callback (getTimeScaleConfig st (dataset c))"
  using assms
  by (auto simp: updateChart_def Let_def split: if_splits sum.splits)

text \<open>
  C8. In \<open>timeMode = custom\<close> the time scale is chosen from the span between the first and
  the last timestamp of the series it is given, in years of 365 days: unit \<open>month\<close> when
  the span is less than 1 year, \<open>quarter\<close> when it is at least 1 and less than 5 years,
  \<open>year\<close> when it is at least 5 years. For an empty series it is unit \<open>month\<close> with no
  tick callback, in every mode. The series it is given by \<open>updateChart\<close> is the output of
  the filter, and the chart is created with the unit and the callback advised for it.
\<close>

theorem time_scale_custom:
  "(timeMode st = ''custom'' \<and> data \<noteq> [] \<and> x (hd data) = Some a \<and> x (last data) = Some b \<longrightarrow>
      (real_of_int (b - a) / (1000*60*60*24*365) < 1 \<longrightarrow>
         unit (getTimeScaleConfig st data) = ''month'')
      \<and> (1 \<le> real_of_int (b - a) / (1000*60*60*24*365)
           \<and> real_of_int (b - a) / (1000*60*60*24*365) < 5 \<longrightarrow>
         unit (getTimeScaleConfig st data) = ''quarter'')
      \<and> (5 \<le> real_of_int (b - a) / (1000*60*60*24*365) \<longrightarrow>
         unit (getTimeScaleConfig st data) = ''year''))
   \<and> getTimeScaleConfig st [] = \<lparr>unit = ''month'', callback = None\<rparr>
   \<and> (updateChart P st canvas (Some series) None = Inr (Some c) \<longrightarrow>
        filterData_gold P st series = Inr (dataset c)
        \<and> xUnit c = unit (getTimeScaleConfig st (dataset c))
        \<and> xCallback c = callback (getTimeScaleConfig st (dataset c)))"
proof (intro conjI impI)
  show "getTimeScaleConfig st [] = \<lparr>unit = ''month'', callback = None\<rparr>"
    by (simp add: getTimeScaleConfig_def)
next
  assume h: "timeMode st = ''custom'' \<and> data \<noteq> [] \<and> x (hd data) = Some a \<and> x (last data) = Some b"
  then have cfg: "getTimeScaleConfig st data =
           (if real_of_int (b - a) / (1000*60*60*24*365) < 1
              then \<lparr>unit = ''month'', callback = Some MonthShort\<rparr>
            else if real_of_int (b - a) / (1000*60*60*24*365) < 5
              then \<lparr>unit = ''quarter'', callback = Some QuarterYear2\<rparr>
            else \<lparr>unit = ''year'', callback = Some FullYear\<rparr>)"
    by (simp add: getTimeScaleConfig_custom)
  show "unit (getTimeScaleConfig st data) = ''month''"
    if "real_of_int (b - a) / (1000*60*60*24*365) < 1"
    using that cfg by simp
  show "unit (getTimeScaleConfig st data) = ''quarter''"
    if "1 \<le> real_of_int (b - a) / (1000*60*60*24*365)
        \<and> real_of_int (b - a) / (1000*60*60*24*365) < 5"
    using that cfg by simp
  show "unit (getTimeScaleConfig st data) = ''year''"
    if "5 \<le> real_of_int (b - a) / (1000*60*60*24*365)"
    using that cfg by simp
next
  assume u: "updateChart P st canvas (Some series) None = Inr (Some c)"
  from updateChart_creates [OF u]
  show "filterData_gold P st series = Inr (dataset c)"
    and "xUnit c = unit (getTimeScaleConfig st (dataset c))"
    and "xCallback c = callback (getTimeScaleConfig st (dataset c))"
    by simp_all
qed

text \<open>
  The theorem on a custom range from 3 January 2009 to 21 April 2024 over a series with
  points in 2009, 2020 and 2024: the filter keeps the three points, their span is more
  than 5 years and the unit is \<open>year\<close>.
\<close>

theorem time_scale_custom_witness:
  "unit (getTimeScaleConfig
           \<lparr>timeMode = ''custom'', year = None, halvingCycle = None, logScale = True,
            customStart = Some ''2009-01-03'', customEnd = Some ''2024-04-21''\<rparr>
           [\<lparr>x = Some 1230940800000, y = Finite 1\<rparr>, \<lparr>x = Some 1589155200000, y = Finite 2\<rparr>,
            \<lparr>x = Some 1713571200000, y = Finite 3\<rparr>]) = ''year''
   \<and> updateChart examplePlatform
        \<lparr>timeMode = ''custom'', year = None, halvingCycle = None, logScale = True,
         customStart = Some ''2009-01-03'', customEnd = Some ''2024-04-21''\<rparr>
        True
        (Some [\<lparr>x = Some 1230940800000, y = Finite 1\<rparr>, \<lparr>x = Some 1589155200000, y = Finite 2\<rparr>,
               \<lparr>x = Some 1713571200000, y = Finite 3\<rparr>])
        None
      = Inr (Some \<lparr>dataset = [\<lparr>x = Some 1230940800000, y = Finite 1\<rparr>, \<lparr>x = Some 1589155200000, y = Finite 2\<rparr>,
                                \<lparr>x = Some 1713571200000, y = Finite 3\<rparr>],
                     xUnit = ''year'', xCallback = Some FullYear,
                     yType = ''logarithmic''\<rparr>)"
proof -
  have u: "updateChart examplePlatform
        \<lparr>timeMode = ''custom'', year = None, halvingCycle = None, logScale = True,
         customStart = Some ''2009-01-03'', customEnd = Some ''2024-04-21''\<rparr>
        True
        (Some [\<lparr>x = Some 1230940800000, y = Finite 1\<rparr>, \<lparr>x = Some 1589155200000, y = Finite 2\<rparr>,
               \<lparr>x = Some 1713571200000, y = Finite 3\<rparr>])
        None
      = Inr (Some \<lparr>dataset = [\<lparr>x = Some 1230940800000, y = Finite 1\<rparr>, \<lparr>x = Some 1589155200000, y = Finite 2\<rparr>,
                                \<lparr>x = Some 1713571200000, y = Finite 3\<rparr>],
                     xUnit = unit (getTimeScaleConfig
                       \<lparr>timeMode = ''custom'', year = None, halvingCycle = None, logScale = True,
                        customStart = Some ''2009-01-03'', customEnd = Some ''2024-04-21''\<rparr>
                       [\<lparr>x = Some 1230940800000, y = Finite 1\<rparr>, \<lparr>x = Some 1589155200000, y = Finite 2\<rparr>,
                        \<lparr>x = Some 1713571200000, y = Finite 3\<rparr>]),
                     xCallback = callback (getTimeScaleConfig
                       \<lparr>timeMode = ''custom'', year = None, halvingCycle = None, logScale = True,
                        customStart = Some ''2009-01-03'', customEnd = Some ''2024-04-21''\<rparr>
                       [\<lparr>x = Some 1230940800000, y = Finite 1\<rparr>, \<lparr>x = Some 1589155200000, y = Finite 2\<rparr>,
                        \<lparr>x = Some 1713571200000, y = Finite 3\<rparr>]),
                     yType = ''logarithmic''\<rparr>)"
    by (simp add: updateChart_def Let_def filterData_gold_def filterHalving_def filterYear_def
        filterCustom_def truthy_str_def clampDateOrder_def truthy_date_def newDate_string_def
        newDate_number_def TimeClip_def examplePlatform_def exampleDates_def)
  show ?thesis
    using u time_scale_custom
      [where st = "\<lparr>timeMode = ''custom'', year = None, halvingCycle = None, logScale = True,
                    customStart = Some ''2009-01-03'', customEnd = Some ''2024-04-21''\<rparr>"
         and data = "[\<lparr>x = Some 1230940800000, y = Finite 1\<rparr>, \<lparr>x = Some 1589155200000, y = Finite 2\<rparr>,
                      \<lparr>x = Some 1713571200000, y = Finite 3\<rparr>]"
         and a = 1230940800000 and b = 1713571200000]
    by (simp add: getTimeScaleConfig_custom)
qed

section \<open>Properties of series loading\<close>

lemma loadJSONL_log: "snd (loadJSONL mk msg net P fetched path) = fetched @ [path]"
  by (simp add: loadJSONL_def split: response.splits)

lemma loadJSONL_gold_log: "loadJSONL_gold net P fetched path = (r, f') \<Longrightarrow> f' = fetched @ [path]"
  using loadJSONL_log [of "\<lambda>d v. \<lparr>x = d, y = v\<rparr>" "\<lambda>path. path" net P fetched path]
  by (simp add: loadJSONL_gold_def)

lemma loadJSONL_fiat_log: "loadJSONL_fiat net P fetched path = (r, f') \<Longrightarrow> f' = fetched @ [path]"
  using loadJSONL_log [of "\<lambda>d v. \<lparr>date = d, value = v\<rparr>" "\<lambda>path. ''Failed to load '' @ path" net P fetched path]
  by (simp add: loadJSONL_fiat_def)

lemma ensureLoaded_cached: "goldData m \<noteq> None \<Longrightarrow> ensureLoaded net P m f = (Inr (), m, f)"
  by (auto simp: ensureLoaded_def)

lemma ensureLoaded_success:
  "ensureLoaded net P m f = (Inr u, m', f') \<Longrightarrow> goldData m' \<noteq> None"
  by (auto simp: ensureLoaded_def split: option.splits prod.splits sum.splits)

lemma ensureLoaded_failure:
  "ensureLoaded net P m f = (Inl e, m', f') \<Longrightarrow> m' = m \<and> goldData m = None \<and> f' = f @ [gold_path]"
  by (auto simp: ensureLoaded_def split: option.splits prod.splits sum.splits dest: loadJSONL_gold_log)

lemma ensureLoaded_fetches:
  "goldData m = None \<Longrightarrow> snd (snd (ensureLoaded net P m f)) = f @ [gold_path]"
  by (auto simp: ensureLoaded_def split: option.splits prod.splits sum.splits dest: loadJSONL_gold_log)

lemma loadReview_success:
  "\<not> initialized m \<Longrightarrow> loadReviewBtcVsGold net P m f = (Inr u, m', f') \<Longrightarrow>
   initialized m' \<and> goldData m' \<noteq> None \<and> (\<forall>net2 f2. loadReviewBtcVsGold net2 P m' f2 = (Inr (), m', f2))"
  by (auto simp: loadReviewBtcVsGold_def split: prod.splits sum.splits dest: ensureLoaded_success)

lemma loadReview_log:
  "\<not> initialized m \<Longrightarrow>
   snd (snd (loadReviewBtcVsGold net P m f)) = snd (snd (ensureLoaded net P m f))"
  by (simp add: loadReviewBtcVsGold_def split: prod.splits sum.splits)

lemma loadReview_failure:
  assumes "loadReviewBtcVsGold net P m f = (Inl e, m', f')"
  shows "m' = m \<and> \<not> initialized m' \<and> goldData m' = None \<and> f' = f @ [gold_path]
   \<and> (\<forall>net2 f2. snd (snd (loadReviewBtcVsGold net2 P m' f2)) = f2 @ [gold_path])"
proof -
  from assms have ni: "\<not> initialized m" and el: "ensureLoaded net P m f = (Inl e, m', f')"
    by (auto simp: loadReviewBtcVsGold_def split: prod.splits sum.splits if_splits)
  from ensureLoaded_failure [OF el] have m: "m' = m" "goldData m = None" "f' = f @ [gold_path]"
    by simp_all
  show ?thesis
    using ni m by (simp add: loadReview_log ensureLoaded_fetches)
qed

lemma ensure_usd_cases:
  "ensure_usd net P c f = (r, c', f') \<Longrightarrow>
     (usd c \<noteq> None \<and> r = Inr () \<and> c' = c \<and> f' = f)
   \<or> (usd c = None \<and> f' = f @ [usd_path] \<and>
        ((\<exists>e. r = Inl e \<and> c' = c) \<or> (\<exists>s. r = Inr () \<and> c' = c\<lparr>usd := Some s\<rparr>)))"
  by (auto simp: ensure_usd_def split: option.splits prod.splits sum.splits dest: loadJSONL_fiat_log)

lemma ensure_eur_cases:
  "ensure_eur net P c f = (r, c', f') \<Longrightarrow>
     (eur c \<noteq> None \<and> r = Inr () \<and> c' = c \<and> f' = f)
   \<or> (eur c = None \<and> f' = f @ [eur_path] \<and>
        ((\<exists>e. r = Inl e \<and> c' = c) \<or> (\<exists>s. r = Inr () \<and> c' = c\<lparr>eur := Some s\<rparr>)))"
  by (auto simp: ensure_eur_def split: option.splits prod.splits sum.splits dest: loadJSONL_fiat_log)

lemma ensure_jpy_cases:
  "ensure_jpy net P c f = (r, c', f') \<Longrightarrow>
     (jpy c \<noteq> None \<and> r = Inr () \<and> c' = c \<and> f' = f)
   \<or> (jpy c = None \<and> f' = f @ [jpy_path] \<and>
        ((\<exists>e. r = Inl e \<and> c' = c) \<or> (\<exists>s. r = Inr () \<and> c' = c\<lparr>jpy := Some s\<rparr>)))"
  by (auto simp: ensure_jpy_def split: option.splits prod.splits sum.splits dest: loadJSONL_fiat_log)

lemma ensureDataLoaded_cached:
  "usd c \<noteq> None \<Longrightarrow> eur c \<noteq> None \<Longrightarrow> jpy c \<noteq> None \<Longrightarrow> ensureDataLoaded net P c f = (Inr (), c, f)"
  by (auto simp: ensureDataLoaded_def ensure_usd_def ensure_eur_def ensure_jpy_def)

lemma ensureDataLoaded_success:
  assumes "ensureDataLoaded net P c f = (Inr u, c', f')"
  shows "usd c' \<noteq> None \<and> eur c' \<noteq> None \<and> jpy c' \<noteq> None"
proof -
  obtain r1 c1 f1 where 1: "ensure_usd net P c f = (r1, c1, f1)" by (metis prod_cases3)
  obtain r2 c2 f2 where 2: "ensure_eur net P c1 f1 = (r2, c2, f2)" by (metis prod_cases3)
  obtain r3 c3 f3 where 3: "ensure_jpy net P c2 f2 = (r3, c3, f3)" by (metis prod_cases3)
  from assms 1 2 3 have r: "r1 = Inr ()" "r2 = Inr ()" "r3 = Inr u" "c' = c3"
    by (auto simp: ensureDataLoaded_def split: sum.splits)
  show ?thesis
    using ensure_usd_cases [OF 1] ensure_eur_cases [OF 2] ensure_jpy_cases [OF 3] r
    by auto
qed

lemma ensureDataLoaded_failure:
  assumes "ensureDataLoaded net P c f = (Inl e, c', f')"
  shows "(usd c' = None \<or> eur c' = None \<or> jpy c' = None)"
proof -
  obtain r1 c1 f1 where 1: "ensure_usd net P c f = (r1, c1, f1)" by (metis prod_cases3)
  obtain r2 c2 f2 where 2: "ensure_eur net P c1 f1 = (r2, c2, f2)" by (metis prod_cases3)
  obtain r3 c3 f3 where 3: "ensure_jpy net P c2 f2 = (r3, c3, f3)" by (metis prod_cases3)
  from assms 1 2 3 have r: "(r1 = Inl e \<and> c' = c1) \<or> (r1 = Inr () \<and> r2 = Inl e \<and> c' = c2) \<or> (r1 = Inr () \<and> r2 = Inr () \<and> r3 = Inl e \<and> c' = c3)"
    by (auto simp: ensureDataLoaded_def split: sum.splits)
  show ?thesis
    using ensure_usd_cases [OF 1] ensure_eur_cases [OF 2] ensure_jpy_cases [OF 3] r
    by auto
qed

lemma ensureDataLoaded_fetches:
  assumes "usd c = None \<or> eur c = None \<or> jpy c = None"
  shows "length f < length (snd (snd (ensureDataLoaded net P c f)))"
proof -
  obtain r1 c1 f1 where 1: "ensure_usd net P c f = (r1, c1, f1)" by (metis prod_cases3)
  obtain r2 c2 f2 where 2: "ensure_eur net P c1 f1 = (r2, c2, f2)" by (metis prod_cases3)
  obtain r3 c3 f3 where 3: "ensure_jpy net P c2 f2 = (r3, c3, f3)" by (metis prod_cases3)
  show ?thesis
    using ensure_usd_cases [OF 1] ensure_eur_cases [OF 2] ensure_jpy_cases [OF 3] assms 1 2 3
    by (auto simp: ensureDataLoaded_def split: sum.splits)
qed

lemma ensureDataLoaded_keeps:
  assumes "ensureDataLoaded net P c f = (r, c', f')"
  shows "(usd c \<noteq> None \<longrightarrow> usd c' = usd c \<and> usd_path \<notin> set (drop (length f) f'))
       \<and> (eur c \<noteq> None \<longrightarrow> eur c' = eur c \<and> eur_path \<notin> set (drop (length f) f'))
       \<and> (jpy c \<noteq> None \<longrightarrow> jpy c' = jpy c \<and> jpy_path \<notin> set (drop (length f) f'))"
proof -
  obtain r1 c1 f1 where 1: "ensure_usd net P c f = (r1, c1, f1)" by (metis prod_cases3)
  obtain r2 c2 f2 where 2: "ensure_eur net P c1 f1 = (r2, c2, f2)" by (metis prod_cases3)
  obtain r3 c3 f3 where 3: "ensure_jpy net P c2 f2 = (r3, c3, f3)" by (metis prod_cases3)
  have paths: "usd_path \<noteq> eur_path" "usd_path \<noteq> jpy_path" "eur_path \<noteq> jpy_path"
    by (simp_all add: usd_path_def eur_path_def jpy_path_def)
  show ?thesis
    using ensure_usd_cases [OF 1] ensure_eur_cases [OF 2] ensure_jpy_cases [OF 3] assms 1 2 3 paths
    by (auto simp: ensureDataLoaded_def split: sum.splits)
qed

lemma ensureLoaded_propagates:
  assumes "goldData m = None"
  shows "(net (length f) gold_path = Rejected \<longrightarrow>
            ensureLoaded net P m f = (Inl NetworkError, m, f @ [gold_path]))
       \<and> (net (length f) gold_path = Response False body \<longrightarrow>
            ensureLoaded net P m f = (Inl (HttpError gold_path), m, f @ [gold_path]))
       \<and> (net (length f) gold_path = Response True body
            \<and> readPoints (\<lambda>d v. \<lparr>x = d, y = v\<rparr>) P body = Inl e \<longrightarrow>
            ensureLoaded net P m f = (Inl e, m, f @ [gold_path]))"
  using assms by (simp add: ensureLoaded_def loadJSONL_gold_def loadJSONL_def)

text \<open>
  C3. Loading is idempotent per source. Gold module: when \<open>ensureLoaded\<close> (or the public
  loader \<open>loadReviewBtcVsGold\<close>) has succeeded, the cache holds a series and every later
  call, whatever the network would answer, returns with the same state and the same fetch
  log: no retrieval. When the retrieval fails (the fetch rejects, the response is not ok, or
  the text does not read as a series), the failure is the result of the call, the state is unchanged
  with the cache still \<open>null\<close>, and the next call fetches the path again. Fiat module: when
  \<open>ensureDataLoaded\<close> has succeeded all three caches are filled and a later call fetches
  nothing; a source that is cached before a call is kept and not fetched by it; after a
  failure some cache is still \<open>null\<close> and the next call fetches again.
\<close>

theorem series_loading_cached_retry:
  "(ensureLoaded net P m f = (Inr u, m', f') \<longrightarrow>
      goldData m' \<noteq> None \<and> (\<forall>net2 f2. ensureLoaded net2 P m' f2 = (Inr (), m', f2)))
   \<and> (ensureLoaded net P m f = (Inl e, m', f') \<longrightarrow>
      m' = m \<and> goldData m' = None \<and> f' = f @ [gold_path]
      \<and> (\<forall>net2 f2. snd (snd (ensureLoaded net2 P m' f2)) = f2 @ [gold_path]))
   \<and> (goldData m = None \<longrightarrow>
      (net (length f) gold_path = Rejected \<longrightarrow>
         ensureLoaded net P m f = (Inl NetworkError, m, f @ [gold_path]))
      \<and> (net (length f) gold_path = Response False body \<longrightarrow>
         ensureLoaded net P m f = (Inl (HttpError gold_path), m, f @ [gold_path]))
      \<and> (net (length f) gold_path = Response True body
           \<and> readPoints (\<lambda>d v. \<lparr>x = d, y = v\<rparr>) P body = Inl e \<longrightarrow>
         ensureLoaded net P m f = (Inl e, m, f @ [gold_path])))
   \<and> (\<not> initialized m \<and> loadReviewBtcVsGold net P m f = (Inr u, m', f') \<longrightarrow>
      initialized m' \<and> goldData m' \<noteq> None
      \<and> (\<forall>net2 f2. loadReviewBtcVsGold net2 P m' f2 = (Inr (), m', f2)))
   \<and> (loadReviewBtcVsGold net P m f = (Inl e, m', f') \<longrightarrow>
      m' = m \<and> \<not> initialized m' \<and> goldData m' = None \<and> f' = f @ [gold_path]
      \<and> (\<forall>net2 f2. snd (snd (loadReviewBtcVsGold net2 P m' f2)) = f2 @ [gold_path]))
   \<and> (ensureDataLoaded net P c f = (Inr u, c', f') \<longrightarrow>
      usd c' \<noteq> None \<and> eur c' \<noteq> None \<and> jpy c' \<noteq> None
      \<and> (\<forall>net2 f2. ensureDataLoaded net2 P c' f2 = (Inr (), c', f2)))
   \<and> (ensureDataLoaded net P c f = (r, c', f') \<longrightarrow>
      (usd c \<noteq> None \<longrightarrow> usd c' = usd c \<and> usd_path \<notin> set (drop (length f) f'))
      \<and> (eur c \<noteq> None \<longrightarrow> eur c' = eur c \<and> eur_path \<notin> set (drop (length f) f'))
      \<and> (jpy c \<noteq> None \<longrightarrow> jpy c' = jpy c \<and> jpy_path \<notin> set (drop (length f) f')))
   \<and> (ensureDataLoaded net P c f = (Inl e, c', f') \<longrightarrow>
      (usd c' = None \<or> eur c' = None \<or> jpy c' = None)
      \<and> (\<forall>net2 f2. length f2 < length (snd (snd (ensureDataLoaded net2 P c' f2)))))"
proof -
  have g1: "ensureLoaded net P m f = (Inr u, m', f') \<longrightarrow>
      goldData m' \<noteq> None \<and> (\<forall>net2 f2. ensureLoaded net2 P m' f2 = (Inr (), m', f2))"
    using ensureLoaded_success [of net P m f u m' f']
    by (auto simp: ensureLoaded_cached)
  have g2: "ensureLoaded net P m f = (Inl e, m', f') \<longrightarrow>
      m' = m \<and> goldData m' = None \<and> f' = f @ [gold_path]
      \<and> (\<forall>net2 f2. snd (snd (ensureLoaded net2 P m' f2)) = f2 @ [gold_path])"
    using ensureLoaded_failure [of net P m f e m' f']
    by (auto simp: ensureLoaded_fetches)
  have g3: "goldData m = None \<longrightarrow>
      (net (length f) gold_path = Rejected \<longrightarrow>
         ensureLoaded net P m f = (Inl NetworkError, m, f @ [gold_path]))
      \<and> (net (length f) gold_path = Response False body \<longrightarrow>
         ensureLoaded net P m f = (Inl (HttpError gold_path), m, f @ [gold_path]))
      \<and> (net (length f) gold_path = Response True body
           \<and> readPoints (\<lambda>d v. \<lparr>x = d, y = v\<rparr>) P body = Inl e \<longrightarrow>
         ensureLoaded net P m f = (Inl e, m, f @ [gold_path]))"
    using ensureLoaded_propagates [of m net f P body e] by blast
  have l1: "\<not> initialized m \<and> loadReviewBtcVsGold net P m f = (Inr u, m', f') \<longrightarrow>
      initialized m' \<and> goldData m' \<noteq> None
      \<and> (\<forall>net2 f2. loadReviewBtcVsGold net2 P m' f2 = (Inr (), m', f2))"
    using loadReview_success [of m net P f u m' f'] by blast
  have l2: "loadReviewBtcVsGold net P m f = (Inl e, m', f') \<longrightarrow>
      m' = m \<and> \<not> initialized m' \<and> goldData m' = None \<and> f' = f @ [gold_path]
      \<and> (\<forall>net2 f2. snd (snd (loadReviewBtcVsGold net2 P m' f2)) = f2 @ [gold_path])"
    using loadReview_failure [of net P m f e m' f'] by blast
  have f1: "ensureDataLoaded net P c f = (Inr u, c', f') \<longrightarrow>
      usd c' \<noteq> None \<and> eur c' \<noteq> None \<and> jpy c' \<noteq> None
      \<and> (\<forall>net2 f2. ensureDataLoaded net2 P c' f2 = (Inr (), c', f2))"
    using ensureDataLoaded_success [of net P c f u c' f']
    by (auto simp: ensureDataLoaded_cached)
  have f2: "ensureDataLoaded net P c f = (r, c', f') \<longrightarrow>
      (usd c \<noteq> None \<longrightarrow> usd c' = usd c \<and> usd_path \<notin> set (drop (length f) f'))
      \<and> (eur c \<noteq> None \<longrightarrow> eur c' = eur c \<and> eur_path \<notin> set (drop (length f) f'))
      \<and> (jpy c \<noteq> None \<longrightarrow> jpy c' = jpy c \<and> jpy_path \<notin> set (drop (length f) f'))"
    using ensureDataLoaded_keeps [of net P c f r c' f'] by blast
  have f3: "ensureDataLoaded net P c f = (Inl e, c', f') \<longrightarrow>
      (usd c' = None \<or> eur c' = None \<or> jpy c' = None)
      \<and> (\<forall>net2 f2. length f2 < length (snd (snd (ensureDataLoaded net2 P c' f2))))"
    using ensureDataLoaded_failure [of net P c f e c' f']
    by (auto simp: ensureDataLoaded_fetches)
  from g1 g2 g3 l1 l2 f1 f2 f3 show ?thesis
    by (intro conjI)
qed

text \<open>
  The theorem on the example network, whose first answer has a failure status: the first
  call of the gold loader fails and leaves the cache empty, the second fetches again and
  caches the series, the third fetches nothing. In the fiat module the first call fails on
  the first source, and the second call loads the three sources.
\<close>

theorem series_loading_cached_retry_witness:
  "loadReviewBtcVsGold exampleNet examplePlatform \<lparr>goldData = None, initialized = False\<rparr> []
     = (Inl (HttpError gold_path), \<lparr>goldData = None, initialized = False\<rparr>, [gold_path])
   \<and> loadReviewBtcVsGold exampleNet examplePlatform
        \<lparr>goldData = None, initialized = False\<rparr> [gold_path]
     = (Inr (), \<lparr>goldData = Some [\<lparr>x = Some 1713571200000, y = Finite 100\<rparr>], initialized = True\<rparr>,
        [gold_path, gold_path])
   \<and> loadReviewBtcVsGold exampleNet examplePlatform
        \<lparr>goldData = Some [\<lparr>x = Some 1713571200000, y = Finite 100\<rparr>], initialized = True\<rparr>
        [gold_path, gold_path]
     = (Inr (), \<lparr>goldData = Some [\<lparr>x = Some 1713571200000, y = Finite 100\<rparr>], initialized = True\<rparr>,
        [gold_path, gold_path])
   \<and> ensureLoaded exampleNet examplePlatform
        \<lparr>goldData = Some [\<lparr>x = Some 1713571200000, y = Finite 100\<rparr>], initialized = True\<rparr>
        [gold_path, gold_path]
     = (Inr (), \<lparr>goldData = Some [\<lparr>x = Some 1713571200000, y = Finite 100\<rparr>], initialized = True\<rparr>,
        [gold_path, gold_path])
   \<and> ensureDataLoaded exampleNet examplePlatform \<lparr>usd = None, eur = None, jpy = None\<rparr> []
     = (Inl (HttpError (''Failed to load '' @ usd_path)),
        \<lparr>usd = None, eur = None, jpy = None\<rparr>, [usd_path])
   \<and> ensureDataLoaded exampleNet examplePlatform \<lparr>usd = None, eur = None, jpy = None\<rparr> [usd_path]
     = (Inr (),
        \<lparr>usd = Some [\<lparr>date = Some 1713571200000, value = Finite 100\<rparr>],
         eur = Some [\<lparr>date = Some 1713571200000, value = Finite 100\<rparr>],
         jpy = Some [\<lparr>date = Some 1713571200000, value = Finite 100\<rparr>]\<rparr>,
        [usd_path, usd_path, eur_path, jpy_path])"
proof -
  have day: "newDate_field examplePlatform (Some ''2024-04-20'') = Some 1713571200000"
    by (simp add: newDate_field_def newDate_string_def TimeClip_def examplePlatform_def
        exampleDates_def)
  have parsed: "parse_lines examplePlatform (split_nl (trim ''{}''))
                = Inr [JObject (Some ''2024-04-20'') (Finite 100)]"
    by (simp add: trim_def is_space_def examplePlatform_def)
  have gline: "readPoints (\<lambda>d v. \<lparr>x = d, y = v\<rparr>) examplePlatform ''{}''
                = Inr [\<lparr>x = Some 1713571200000, y = Finite 100\<rparr>]"
    by (simp add: readPoints_def parsed day)
  have fline: "readPoints (\<lambda>d v. \<lparr>date = d, value = v\<rparr>) examplePlatform ''{}''
                = Inr [\<lparr>date = Some 1713571200000, value = Finite 100\<rparr>]"
    by (simp add: readPoints_def parsed day)
  have g1: "ensureLoaded exampleNet examplePlatform \<lparr>goldData = None, initialized = False\<rparr> []
     = (Inl (HttpError gold_path), \<lparr>goldData = None, initialized = False\<rparr>, [gold_path])"
    by (simp add: ensureLoaded_def loadJSONL_gold_def loadJSONL_def exampleNet_def)
  have g2: "ensureLoaded exampleNet examplePlatform
        \<lparr>goldData = None, initialized = False\<rparr> [gold_path]
     = (Inr (), \<lparr>goldData = Some [\<lparr>x = Some 1713571200000, y = Finite 100\<rparr>], initialized = False\<rparr>,
        [gold_path, gold_path])"
    by (simp add: ensureLoaded_def loadJSONL_gold_def loadJSONL_def exampleNet_def gline)
  have l1: "loadReviewBtcVsGold exampleNet examplePlatform
        \<lparr>goldData = None, initialized = False\<rparr> []
     = (Inl (HttpError gold_path), \<lparr>goldData = None, initialized = False\<rparr>, [gold_path])"
    by (simp add: loadReviewBtcVsGold_def g1)
  have l2: "loadReviewBtcVsGold exampleNet examplePlatform
        \<lparr>goldData = None, initialized = False\<rparr> [gold_path]
     = (Inr (), \<lparr>goldData = Some [\<lparr>x = Some 1713571200000, y = Finite 100\<rparr>], initialized = True\<rparr>,
        [gold_path, gold_path])"
    by (simp add: loadReviewBtcVsGold_def g2)
  have d1: "ensureDataLoaded exampleNet examplePlatform \<lparr>usd = None, eur = None, jpy = None\<rparr> []
     = (Inl (HttpError (''Failed to load '' @ usd_path)),
        \<lparr>usd = None, eur = None, jpy = None\<rparr>, [usd_path])"
    by (simp add: ensureDataLoaded_def ensure_usd_def loadJSONL_fiat_def loadJSONL_def
        exampleNet_def)
  have d2: "ensureDataLoaded exampleNet examplePlatform
        \<lparr>usd = None, eur = None, jpy = None\<rparr> [usd_path]
     = (Inr (),
        \<lparr>usd = Some [\<lparr>date = Some 1713571200000, value = Finite 100\<rparr>],
         eur = Some [\<lparr>date = Some 1713571200000, value = Finite 100\<rparr>],
         jpy = Some [\<lparr>date = Some 1713571200000, value = Finite 100\<rparr>]\<rparr>,
        [usd_path, usd_path, eur_path, jpy_path])"
    by (simp add: ensureDataLoaded_def ensure_usd_def ensure_eur_def ensure_jpy_def
        loadJSONL_fiat_def loadJSONL_def exampleNet_def fline)
  have g3: "ensureLoaded exampleNet examplePlatform
        \<lparr>goldData = Some [\<lparr>x = Some 1713571200000, y = Finite 100\<rparr>], initialized = True\<rparr>
        [gold_path, gold_path]
     = (Inr (), \<lparr>goldData = Some [\<lparr>x = Some 1713571200000, y = Finite 100\<rparr>], initialized = True\<rparr>,
        [gold_path, gold_path])"
    by (simp add: ensureLoaded_def)
  have l3: "loadReviewBtcVsGold exampleNet examplePlatform
        \<lparr>goldData = Some [\<lparr>x = Some 1713571200000, y = Finite 100\<rparr>], initialized = True\<rparr>
        [gold_path, gold_path]
     = (Inr (), \<lparr>goldData = Some [\<lparr>x = Some 1713571200000, y = Finite 100\<rparr>], initialized = True\<rparr>,
        [gold_path, gold_path])"
    by (simp add: loadReviewBtcVsGold_def)
  show ?thesis
    using l1 l2 l3 g3 d1 d2
      series_loading_cached_retry
        [where net = exampleNet and P = examplePlatform
           and m = "\<lparr>goldData = None, initialized = False\<rparr>" and f = "[gold_path]"
           and u = "()"
           and m' = "\<lparr>goldData = Some [\<lparr>x = Some 1713571200000, y = Finite 100\<rparr>],
                      initialized = True\<rparr>"
           and f' = "[gold_path, gold_path]"]
    by simp
qed

section \<open>Properties of the router\<close>

subsection \<open>Reverse lookup\<close>

text \<open>
  Four facts about every entry of the table, each checked by running the lookups over
  the table: the entry is the first one with its triple; it is the first one found by the
  lookup of the handler for its deepest level; its path is a key that gives it back; a
  click of the user on its control pushes its path and nothing else.
\<close>

lemma routes_first_with_triple:
  "list_all (\<lambda>(path, r).
      find (\<lambda>(_, r'). tab r' = tab r \<and> subtab r' = subtab r \<and> subsubtab r' = subsubtab r) ROUTES
        = Some (path, r)) ROUTES"
  by code_simp

lemma routes_first_for_handler:
  "list_all (\<lambda>(path, r).
      (if subsubtab r \<noteq> Undefined then findBySubsubtab (subsubtab r)
       else if truthy (subtab r) then findBySubtab (subtab r)
       else findByTab (tab r)) = Some (path, r)) ROUTES"
  by code_simp

lemma routes_lookup_path:
  "list_all (\<lambda>(path, r). map_of ROUTES path = Some r) ROUTES"
  by code_simp

lemma routes_click_pushes_path:
  "list_all (\<lambda>(path, r). pushed (click (controlOf r) idlePage) = [path]) ROUTES"
  by code_simp

text \<open>
  C9. Round trip of the route table. For every entry of \<open>ROUTES\<close>, the first entry whose
  (tab, subtab, subsubtab) triple equals its triple is the entry itself, with its own
  path, and looking that path up in \<open>ROUTES\<close> gives the entry back. The same holds for the
  lookup that the click handlers perform, which compares one component only: the handler
  of the deepest level the entry names (sub-subtab, else subtab, else tab) finds the entry
  itself first, and a click of the user on the control of that level, with the flag clear,
  pushes the path of the entry and no other.
\<close>

theorem routes_round_trip:
  "\<forall>(path, r) \<in> set ROUTES.
      find (\<lambda>(_, r'). tab r' = tab r \<and> subtab r' = subtab r \<and> subsubtab r' = subsubtab r) ROUTES
        = Some (path, r)
      \<and> (if subsubtab r \<noteq> Undefined then findBySubsubtab (subsubtab r)
          else if truthy (subtab r) then findBySubtab (subtab r)
          else findByTab (tab r)) = Some (path, r)
      \<and> map_of ROUTES path = Some r
      \<and> pushed (click (controlOf r) idlePage) = [path]"
  using routes_first_with_triple routes_first_for_handler routes_lookup_path
    routes_click_pushes_path
  unfolding list_all_iff by fast

text \<open>
  The theorem on the entry of \<open>metrics/difficulty\<close>, whose subtab it shares with four
  deeper entries that come after it in the table.
\<close>

theorem routes_round_trip_witness:
  "(''metrics/difficulty'',
      \<lparr>tab = Str ''metrics'', subtab = Str ''METRICS_BTC_DIFFICULTY'', subsubtab = Undefined\<rparr>)
     \<in> set ROUTES
   \<and> findBySubtab (Str ''METRICS_BTC_DIFFICULTY'')
     = Some (''metrics/difficulty'',
         \<lparr>tab = Str ''metrics'', subtab = Str ''METRICS_BTC_DIFFICULTY'', subsubtab = Undefined\<rparr>)
   \<and> map_of ROUTES ''metrics/difficulty''
     = Some \<lparr>tab = Str ''metrics'', subtab = Str ''METRICS_BTC_DIFFICULTY'', subsubtab = Undefined\<rparr>
   \<and> pushed (click [\<lparr>classes = [''subTabButton''], data_tab = None,
                       data_subtab = Some ''METRICS_BTC_DIFFICULTY'', data_subsubtab = None\<rparr>]
               idlePage)
     = [''metrics/difficulty'']"
proof -
  have m: "(''metrics/difficulty'',
      \<lparr>tab = Str ''metrics'', subtab = Str ''METRICS_BTC_DIFFICULTY'', subsubtab = Undefined\<rparr>)
     \<in> set ROUTES"
    by (simp add: ROUTES_def)
  show ?thesis
    using m routes_round_trip by (auto simp: truthy_def controlOf_def toStr_def)
qed

subsection \<open>Applying a path\<close>

text \<open>
  What the flag does suppress: while it is set, a click on an element that is neither in a
  tab button nor in a subtab button pushes nothing.
\<close>

lemma click_suppressed:
  assumes "ROUTER_ACTIVE pg"
    and "closest (hasClass ''tabButton'') target = None"
    and "closest (hasClass ''subTabButton'') target = None"
  shows "pushed (click target pg) = pushed pg"
  using assms
  by (simp add: click_def onTabClick_def onSubtabClick_def onSubsubtabClick_def
      split: option.splits)

text \<open>
  What it does not suppress: the listener for tab buttons does not read the flag. For every
  path of the table whose tab button is on the page, \<open>routeTo\<close> pushes the path of the
  first entry of that tab, whatever the page was before.
\<close>

lemma routes_tabs_are_strings:
  "list_all (\<lambda>(path, r). tab r = Str (toStr (tab r))) ROUTES"
  by code_simp

lemma pushed_onSubtabClick: "\<exists>xs. pushed (onSubtabClick t pg) = pushed pg @ xs"
  by (auto simp: onSubtabClick_def pushState_def split: option.splits)

lemma pushed_onSubsubtabClick: "\<exists>xs. pushed (onSubsubtabClick t pg) = pushed pg @ xs"
  by (auto simp: onSubsubtabClick_def pushState_def split: option.splits)

lemma click_tab_button_pushes:
  assumes "hasClass ''tabButton'' e" and "findByTab (dataset_attr (data_tab e)) = Some (p, r)"
  shows "\<exists>xs. pushed (click (e # rest) pg) = pushed pg @ p # xs"
proof -
  have t: "pushed (onTabClick (e # rest) (pg\<lparr>activations := activations pg @ [Clicked (e # rest)]\<rparr>))
             = pushed pg @ [p]"
    using assms by (simp add: onTabClick_def closest_def pushState_def)
  obtain xs where 1: "pushed (onSubtabClick (e # rest)
        (onTabClick (e # rest) (pg\<lparr>activations := activations pg @ [Clicked (e # rest)]\<rparr>)))
      = (pushed pg @ [p]) @ xs"
    using pushed_onSubtabClick t by metis
  obtain ys where 2: "pushed (click (e # rest) pg) = ((pushed pg @ [p]) @ xs) @ ys"
    unfolding click_def using pushed_onSubsubtabClick 1 by metis
  then show ?thesis by simp
qed

lemma routeTo_pushes_tab_path:
  assumes "map_of ROUTES (stripSlashes path) = Some rt"
    and "querySelector (\<lambda>e. hasClass ''tabButton'' e \<and> data_tab e = Some (toStr (tab rt))) doc
           = Some mainBtn"
  shows "\<exists>p r xs. findByTab (tab rt) = Some (p, r)
           \<and> pushed (fst (routeTo doc path pg)) = pushed pg @ p # xs"
proof -
  have mem: "(stripSlashes path, rt) \<in> set ROUTES"
    using assms(1) by (rule map_of_SomeD)
  then have str: "tab rt = Str (toStr (tab rt))"
    using routes_tabs_are_strings unfolding list_all_iff by fast
  have "findByTab (tab rt) \<noteq> None"
    using mem by (auto simp: findByTab_def find_None_iff)
  then obtain p r where f: "findByTab (tab rt) = Some (p, r)"
    by (cases "findByTab (tab rt)") auto
  have "case mainBtn of [] \<Rightarrow> False
        | e # _ \<Rightarrow> hasClass ''tabButton'' e \<and> data_tab e = Some (toStr (tab rt))"
    using assms(2) unfolding querySelector_def find_Some_iff by blast
  then obtain e rest where btn: "mainBtn = e # rest" "hasClass ''tabButton'' e"
      "data_tab e = Some (toStr (tab rt))"
    by (cases mainBtn) auto
  have "findByTab (dataset_attr (data_tab e)) = Some (p, r)"
    using btn(3) f str by (simp add: dataset_attr_def)
  from click_tab_button_pushes [OF btn(2) this, of rest "pg\<lparr>ROUTER_ACTIVE := True\<rparr>"]
  obtain xs where "pushed (click mainBtn (pg\<lparr>ROUTER_ACTIVE := True\<rparr>)) = pushed pg @ p # xs"
    using btn(1) by auto
  then have "pushed (fst (routeTo doc path pg)) = pushed pg @ p # xs"
    using assms by (simp add: routeTo_def lookupRoute_def Let_def)
  with f show ?thesis by blast
qed

text \<open>
  C1 does not hold of the code. On a page that has the tab button of \<open>metrics\<close>, applying
  the path \<open>metrics/tx-amount/24h\<close> from an idle page with an empty push list clicks the
  tab button while the flag is set; the listener for tab buttons does not read the flag,
  finds the first entry of the tab, \<open>metrics/price\<close>, and pushes it. The push is there
  when \<open>routeTo\<close> returns and after its two timers have run; the click on the sub-subtab
  button, which the third listener guards with the flag, adds none.
\<close>

theorem routeTo_pushes_history:
  "routeTo exampleDocument ''metrics/tx-amount/24h'' idlePage
     = (\<lparr>ROUTER_ACTIVE = True, pushed = [''metrics/price''],
         activations =
           [Clicked [\<lparr>classes = [''tabButton''], data_tab = Some ''metrics'',
                      data_subtab = None, data_subsubtab = None\<rparr>]]\<rparr>,
        [(60, ActivateSubtab ''METRICS_BTC_TX_AMOUNT''),
         (140, ActivateSubsubtab ''METRICS_BTC_TX_AMOUNT_24H'')])
   \<and> applyPath exampleDocument ''metrics/tx-amount/24h'' idlePage
     = \<lparr>ROUTER_ACTIVE = False, pushed = [''metrics/price''],
        activations =
          [Clicked [\<lparr>classes = [''tabButton''], data_tab = Some ''metrics'',
                     data_subtab = None, data_subsubtab = None\<rparr>],
           ShowSubTab [\<lparr>classes = [''subTabButton''], data_tab = None,
                        data_subtab = Some ''METRICS_BTC_TX_AMOUNT'', data_subsubtab = None\<rparr>],
           Clicked [\<lparr>classes = [], data_tab = None,
                     data_subtab = None, data_subsubtab = Some ''METRICS_BTC_TX_AMOUNT_24H''\<rparr>]]\<rparr>"
  by code_simp

end
